theory Spec2Isabelle
  imports Complex_Main
begin

section \<open>The Sawyer push-T task environment (sawyer\_push\_T.py)\<close>

text \<open>
  A shallow embedding of \<^verbatim>\<open>multiworld/envs/mujoco/sawyer_xyz/sawyer_push_T.py\<close>.
  Python floats are idealised as the reals, a one-dimensional numpy array is a list of
  reals, and every exception the code can raise is a value of \<open>error\<close>. The numpy and
  scipy functions the file calls are written out by their documented meaning on the
  reals; the physics engine (MuJoCo) is a parameter of the model.
\<close>

subsection \<open>Errors and results\<close>

datatype error = ValueError | IndexError | KeyError | AssertionError | AttributeError

definition then_do :: "error + 'a \<Rightarrow> ('a \<Rightarrow> error + 'b) \<Rightarrow> error + 'b" where
  "then_do m f = (case m of Inl e \<Rightarrow> Inl e | Inr x \<Rightarrow> f x)"

subsection \<open>numpy on one-dimensional arrays\<close>

type_synonym vec = "real list"
type_synonym vec3 = "real \<times> real \<times> real"
type_synonym quat = "real \<times> real \<times> real \<times> real"

text \<open>
  An elementwise binary operation with numpy's broadcasting rule for shapes \<open>(n)\<close> and
  \<open>(m)\<close>: equal lengths pair up, a length-one operand is repeated, anything else
  raises ValueError.
\<close>

definition broadcast2 :: "(real \<Rightarrow> real \<Rightarrow> 'a) \<Rightarrow> vec \<Rightarrow> vec \<Rightarrow> error + 'a list" where
  "broadcast2 f xs ys =
     (if length xs = length ys then Inr (map2 f xs ys)
      else if length xs = 1 then Inr (map (f (hd xs)) ys)
      else if length ys = 1 then Inr (map (\<lambda>x. f x (hd ys)) xs)
      else Inl ValueError)"

definition np_subtract :: "vec \<Rightarrow> vec \<Rightarrow> error + vec" where
  "np_subtract xs ys = broadcast2 (\<lambda>x y. x - y) xs ys"

text \<open>\<^verbatim>\<open>np.linalg.norm(x)\<close> of a vector is \<^verbatim>\<open>sqrt(x.dot(x))\<close>.\<close>

definition dot :: "vec \<Rightarrow> vec \<Rightarrow> real" where
  "dot xs ys = sum_list (map2 (\<lambda>x y. x * y) xs ys)"

definition linalg_norm :: "vec \<Rightarrow> real" where
  "linalg_norm xs = sqrt (dot xs xs)"

text \<open>\<^verbatim>\<open>np.clip(x, lo, hi)\<close> is \<^verbatim>\<open>minimum(hi, maximum(x, lo))\<close>.\<close>

definition clip :: "real \<Rightarrow> real \<Rightarrow> real \<Rightarrow> real" where
  "clip x lo hi = min hi (max x lo)"

definition list3 :: "vec3 \<Rightarrow> vec" where
  "list3 v = (case v of (a, b, c) \<Rightarrow> [a, b, c])"

definition norm3 :: "vec3 \<Rightarrow> real" where
  "norm3 v = linalg_norm (list3 v)"

definition sub3 :: "vec3 \<Rightarrow> vec3 \<Rightarrow> vec3" where
  "sub3 u v = (case u of (a, b, c) \<Rightarrow> case v of (d, e, f) \<Rightarrow> (a - d, b - e, c - f))"

subsection \<open>scipy rotations\<close>

text \<open>
  \<^verbatim>\<open>scipy.spatial.transform.Rotation\<close> keeps a unit quaternion in the order
  \<open>(x, y, z, w)\<close>. \<^verbatim>\<open>from_euler\<close> with a lower-case sequence composes the
  elementary rotations extrinsically: each later rotation is multiplied on the left.
\<close>

definition compose_quat :: "quat \<Rightarrow> quat \<Rightarrow> quat" where
  "compose_quat p q =
     (case p of (px, py, pz, pw) \<Rightarrow> case q of (qx, qy, qz, qw) \<Rightarrow>
        (pw * qx + qw * px + (py * qz - pz * qy),
         pw * qy + qw * py + (pz * qx - px * qz),
         pw * qz + qw * pz + (px * qy - py * qx),
         pw * qw - (px * qx + py * qy + pz * qz)))"

datatype axis = X | Y | Z

fun elementary_quat :: "axis \<Rightarrow> real \<Rightarrow> quat" where
  "elementary_quat X a = (sin (a / 2), 0, 0, cos (a / 2))"
| "elementary_quat Y a = (0, sin (a / 2), 0, cos (a / 2))"
| "elementary_quat Z a = (0, 0, sin (a / 2), cos (a / 2))"

definition from_euler_zxy :: "real \<Rightarrow> real \<Rightarrow> real \<Rightarrow> quat" where
  "from_euler_zxy a b c =
     compose_quat (elementary_quat Y c)
       (compose_quat (elementary_quat X b) (elementary_quat Z a))"

text \<open>\<^verbatim>\<open>from_quat\<close> normalises its argument and refuses a quaternion of norm zero.\<close>

definition from_quat :: "quat \<Rightarrow> error + quat" where
  "from_quat q =
     (case q of (x, y, z, w) \<Rightarrow>
        let n = sqrt (x * x + y * y + z * z + w * w)
        in if n = 0 then Inl ValueError else Inr (x / n, y / n, z / n, w / n))"

definition arctan2 :: "real \<Rightarrow> real \<Rightarrow> real" where
  "arctan2 y x =
     (if 0 < x then arctan (y / x)
      else if x < 0 then (if 0 \<le> y then arctan (y / x) + pi else arctan (y / x) - pi)
      else if 0 < y then pi / 2
      else if y < 0 then - (pi / 2)
      else 0)"

text \<open>
  \<^verbatim>\<open>as_euler('zyx')[0]\<close>: the rotation matrix \<open>R\<close> of the quaternion is decomposed
  as \<open>R = Rx(c) * Ry(b) * Rz(a)\<close> and \<open>a\<close> is returned. The second angle is
  \<open>b = arcsin R02\<close>. Away from gimbal lock \<open>a = arctan2 (- R01) R00\<close>; scipy takes the
  rotation as gimbal-locked when \<open>b\<close> is within \<open>1e-7\<close> of \<open>pi / 2\<close> or of \<open>- pi / 2\<close>, and
  then sets the third angle to zero, which leaves \<open>a = arctan2 R10 R11\<close>.
\<close>

definition as_euler_zyx_first :: "quat \<Rightarrow> real" where
  "as_euler_zyx_first q =
     (case q of (x, y, z, w) \<Rightarrow>
        let r00 = 1 - 2 * (y * y + z * z);
            r01 = 2 * (x * y - z * w);
            r02 = 2 * (x * z + y * w);
            r10 = 2 * (x * y + z * w);
            r11 = 1 - 2 * (x * x + z * z)
        in if pi / 2 - \<bar>arcsin r02\<bar> \<le> 1 / 10 ^ 7 then arctan2 r10 r11
           else arctan2 (- r01) r00)"

text \<open>\<^verbatim>\<open>theta_to_quat\<close> returns the quaternion in the order \<open>(w, x, y, z)\<close>.\<close>

definition theta_to_quat :: "real \<Rightarrow> quat" where
  "theta_to_quat theta =
     (case from_euler_zxy theta 0 0 of (x, y, z, w) \<Rightarrow> (w, x, y, z))"

text \<open>\<^verbatim>\<open>quat_to_theta(x, y, z, w)\<close>.\<close>

definition quat_to_theta :: "real \<Rightarrow> real \<Rightarrow> real \<Rightarrow> real \<Rightarrow> error + real" where
  "quat_to_theta x y z w =
     then_do (from_quat (x, y, z, w)) (\<lambda>rotation. Inr (as_euler_zyx_first rotation))"

subsection \<open>Reward\<close>

text \<open>
  An observation is a Python dict from names to arrays; a missing key raises KeyError.
  \<^verbatim>\<open>compute_reward(action, obs)\<close> ignores its action.
\<close>

type_synonym obs = "string \<rightharpoonup> vec"

definition lookup :: "obs \<Rightarrow> string \<Rightarrow> error + vec" where
  "lookup d k = (case d k of None \<Rightarrow> Inl KeyError | Some v \<Rightarrow> Inr v)"

definition compute_reward :: "vec \<Rightarrow> obs \<Rightarrow> error + real" where
  "compute_reward action ob =
     then_do (lookup ob ''state_achieved_goal'') (\<lambda>achieved.
     then_do (lookup ob ''state_desired_goal'') (\<lambda>desired.
     then_do (np_subtract achieved desired) (\<lambda>diff.
     Inr (- linalg_norm diff))))"

subsection \<open>numpy: broadcasting, clipping, slices and random draws\<close>

text \<open>
  Broadcasting addition, \<^verbatim>\<open>np.clip\<close> with array bounds, \<^verbatim>\<open>np.random.uniform\<close> with array
  bounds, and the assignment \<^verbatim>\<open>xs[i:j] = vs\<close> to a slice: the slice is cut to the length of
  \<open>xs\<close>, a value of the slice's length replaces it, a value of length one fills it, and
  any other length raises ValueError.
\<close>

definition np_add :: "vec \<Rightarrow> vec \<Rightarrow> error + vec" where
  "np_add xs ys = broadcast2 (\<lambda>x y. x + y) xs ys"

definition np_clip :: "vec \<Rightarrow> vec \<Rightarrow> vec \<Rightarrow> error + vec" where
  "np_clip xs lo hi = then_do (broadcast2 max xs lo) (\<lambda>m. broadcast2 min hi m)"

definition assign_slice :: "vec \<Rightarrow> nat \<Rightarrow> nat \<Rightarrow> vec \<Rightarrow> error + vec" where
  "assign_slice xs i j vs =
     (let n = length xs; lo = min i n; hi = max lo (min j n); m = hi - lo
      in if length vs = m then Inr (take lo xs @ vs @ drop hi xs)
         else if length vs = 1 then Inr (take lo xs @ replicate m (hd vs) @ drop hi xs)
         else Inl ValueError)"

definition to_vec3 :: "vec \<Rightarrow> error + vec3" where
  "to_vec3 xs = (case xs of [a, b, c] \<Rightarrow> Inr (a, b, c) | _ \<Rightarrow> Inl ValueError)"

text \<open>
  The global random generator is a stream of draws from \<open>[0, 1)\<close>, passed in and handed
  back. \<^verbatim>\<open>np.random.uniform(low, high)\<close> broadcasts its bounds and uses one draw \<open>u\<close> for
  each component, \<open>low + (high - low) * u\<close>.
\<close>

type_synonym rng = "nat \<Rightarrow> real"

definition random_sample :: "rng \<Rightarrow> real \<times> rng" where
  "random_sample r = (r 0, \<lambda>i. r (Suc i))"

definition np_uniform :: "vec \<Rightarrow> vec \<Rightarrow> rng \<Rightarrow> error + vec \<times> rng" where
  "np_uniform low high r =
     then_do (broadcast2 Pair low high) (\<lambda>bounds.
       Inr (map2 (\<lambda>(l, h) u. l + (h - l) * u) bounds (map r [0..<length bounds]),
            \<lambda>i. r (length bounds + i)))"

subsection \<open>Configuration, scene and simulator state\<close>

text \<open>
  The constructor's arguments that a method reads (\<^verbatim>\<open>reward_info\<close>, \<^verbatim>\<open>hide_goal\<close>
  and the \<^verbatim>\<open>init_block\<close> bounds are stored and never read). The two classes of the
  file differ in their default puck bounds and in \<^verbatim>\<open>sample_puck_xytheta\<close>, which only
  the easy class defines.
\<close>

datatype env_class = SawyerPushAndReachTXYEnv | SawyerPushAndReachTXYEasyEnv

record config =
  cls :: env_class
  frame_skip :: nat
  pos_action_scale :: real
  randomize_goals :: bool
  puck_goal_low :: vec
  puck_goal_high :: vec
  hand_goal_low :: vec
  hand_goal_high :: vec
  fixed_puck_goal :: vec
  fixed_hand_goal :: vec
  mocap_low :: vec
  mocap_high :: vec
  force_puck_in_goal_space :: bool

definition base_config :: config where
  "base_config =
     \<lparr>cls = SawyerPushAndReachTXYEnv, frame_skip = 50, pos_action_scale = 2 / 100,
      randomize_goals = True,
      puck_goal_low = [- 5 / 100, 55 / 100, - 2 / 10],
      puck_goal_high = [5 / 100, 65 / 100, 2 / 10],
      hand_goal_low = [- 5 / 100, 55 / 100],
      hand_goal_high = [5 / 100, 65 / 100],
      fixed_puck_goal = [5 / 100, 6 / 10, 0],
      fixed_hand_goal = [- 5 / 100, 6 / 10, 0],
      mocap_low = [- 1 / 10, 5 / 10, 0],
      mocap_high = [1 / 10, 7 / 10, 5 / 10],
      force_puck_in_goal_space = False\<rparr>"

definition easy_config :: config where
  "easy_config =
     base_config\<lparr>cls := SawyerPushAndReachTXYEasyEnv,
       puck_goal_low := [- 2 / 10, 5 / 10], puck_goal_high := [2 / 10, 7 / 10]\<rparr>"

text \<open>
  The simulator's data: joint positions and velocities, the pose of the one mocap body
  (the actuator target, named \<open>mocap\<close>), the derived world poses of the bodies by body
  id (quaternions in the order \<open>(w, x, y, z)\<close>), and the equality-constraint data.
\<close>

record sim_data =
  qpos :: vec
  qvel :: vec
  mocap_pos :: vec3
  mocap_quat :: quat
  body_xpos :: "nat \<Rightarrow> vec3"
  body_xquat :: "nat \<Rightarrow> quat"
  eq_data :: "vec list option"

text \<open>
  The scene (the XML asset, which is not part of the source file) and the physics engine
  are parameters: the names of the bodies, the number of mocap bodies, the types of the
  equality constraints, the engine's forward kinematics (the derived body poses of a
  state) and its simulation of a number of frames under a control vector. Nothing is
  assumed of the last two.
\<close>

record mujoco =
  body_names :: "string list"
  nmocap :: nat
  eq_type :: "nat list"
  kinematics :: "sim_data \<Rightarrow> (nat \<Rightarrow> vec3) \<times> (nat \<Rightarrow> quat)"
  simulate :: "vec \<Rightarrow> nat \<Rightarrow> sim_data \<Rightarrow> sim_data"

definition EQ_WELD :: nat where
  "EQ_WELD = 1"

text \<open>\<^verbatim>\<open>sim.forward()\<close> recomputes the derived quantities and leaves the rest alone.\<close>

definition forward :: "mujoco \<Rightarrow> sim_data \<Rightarrow> sim_data" where
  "forward mj s = s\<lparr>body_xpos := fst (kinematics mj s), body_xquat := snd (kinematics mj s)\<rparr>"

text \<open>
  Modelled from the spec: \<^verbatim>\<open>MujocoEnv.set_state\<close> (the base class is not in the source
  file). Section 6: "set joint-position/joint-velocity vectors wholesale" and
  "force-recompute derived quantities after manual state edits".
\<close>

definition set_state :: "mujoco \<Rightarrow> vec \<Rightarrow> vec \<Rightarrow> sim_data \<Rightarrow> sim_data" where
  "set_state mj q v s = forward mj (s\<lparr>qpos := q, qvel := v\<rparr>)"

text \<open>
  Modelled from the spec: \<^verbatim>\<open>MujocoEnv.do_simulation\<close> (the base class is not in the source
  file). Section 6: "advance simulation by N integration steps given a joint-torque
  vector"; the engine's step is the parameter \<open>simulate\<close>.
\<close>

definition do_simulation :: "mujoco \<Rightarrow> vec \<Rightarrow> nat \<Rightarrow> sim_data \<Rightarrow> sim_data" where
  "do_simulation mj u n s = simulate mj u n s"

definition set_mocap_pos :: "vec3 \<Rightarrow> sim_data \<Rightarrow> sim_data" where
  "set_mocap_pos v s = s\<lparr>mocap_pos := v\<rparr>"

definition set_mocap_quat :: "quat \<Rightarrow> sim_data \<Rightarrow> sim_data" where
  "set_mocap_quat q s = s\<lparr>mocap_quat := q\<rparr>"

text \<open>
  The environment object: the simulator's data and the stored goal (the attribute
  \<^verbatim>\<open>_goal_xyxytheta\<close>).
\<close>

record env =
  data :: sim_data
  goal_xyxytheta :: vec

subsection \<open>State accessors\<close>

text \<open>\<^verbatim>\<open>body_names.index(name)\<close>: the first position of the name, or ValueError.\<close>

fun index_of :: "string list \<Rightarrow> string \<Rightarrow> nat option" where
  "index_of [] name = None"
| "index_of (n # ns) name =
     (if n = name then Some 0 else map_option Suc (index_of ns name))"

definition body_id :: "mujoco \<Rightarrow> string \<Rightarrow> error + nat" where
  "body_id mj name =
     (case index_of (body_names mj) name of None \<Rightarrow> Inl ValueError | Some i \<Rightarrow> Inr i)"

definition endeff_id :: "mujoco \<Rightarrow> error + nat" where
  "endeff_id mj = body_id mj ''leftclaw''"

definition puck_id :: "mujoco \<Rightarrow> error + nat" where
  "puck_id mj = body_id mj ''puck''"

definition puck_goal_id :: "mujoco \<Rightarrow> error + nat" where
  "puck_goal_id mj = body_id mj ''puck-goal''"

definition hand_goal_id :: "mujoco \<Rightarrow> error + nat" where
  "hand_goal_id mj = body_id mj ''hand-goal''"

definition get_puck_xytheta :: "mujoco \<Rightarrow> sim_data \<Rightarrow> error + vec3" where
  "get_puck_xytheta mj s =
     then_do (puck_id mj) (\<lambda>i.
       case body_xpos s i of (px, py, pz) \<Rightarrow>
       case body_xquat s i of (w, x, y, z) \<Rightarrow>
         then_do (quat_to_theta x y z w) (\<lambda>theta. Inr (px, py, theta)))"

definition get_endeff_pos :: "mujoco \<Rightarrow> sim_data \<Rightarrow> error + vec3" where
  "get_endeff_pos mj s = then_do (endeff_id mj) (\<lambda>i. Inr (body_xpos s i))"

definition get_hand_goal_pos :: "mujoco \<Rightarrow> sim_data \<Rightarrow> error + vec3" where
  "get_hand_goal_pos mj s = then_do (hand_goal_id mj) (\<lambda>i. Inr (body_xpos s i))"

definition get_puck_goal_xytheta :: "mujoco \<Rightarrow> sim_data \<Rightarrow> error + vec3" where
  "get_puck_goal_xytheta mj s =
     then_do (puck_goal_id mj) (\<lambda>i.
       case body_xpos s i of (x, y, z) \<Rightarrow>
       case body_xquat s i of (qw, qx, qy, qz) \<Rightarrow>
         then_do (quat_to_theta qx qy qz qw) (\<lambda>theta. Inr (x, y, theta)))"

text \<open>\<^verbatim>\<open>_get_obs\<close>: the observation dict.\<close>

definition get_obs :: "mujoco \<Rightarrow> env \<Rightarrow> error + obs" where
  "get_obs mj e =
     then_do (get_endeff_pos mj (data e)) (\<lambda>ee.
     then_do (get_puck_xytheta mj (data e)) (\<lambda>b.
       let x = take 2 (list3 ee) @ take 3 (list3 b); g = goal_xyxytheta e
       in Inr [''observation'' \<mapsto> x, ''state_observation'' \<mapsto> x,
               ''desired_goal'' \<mapsto> g, ''state_desired_goal'' \<mapsto> g,
               ''achieved_goal'' \<mapsto> x, ''state_achieved_goal'' \<mapsto> x]))"

subsection \<open>State mutators\<close>

definition set_puck_xytheta :: "mujoco \<Rightarrow> vec \<Rightarrow> sim_data \<Rightarrow> error + sim_data" where
  "set_puck_xytheta mj xytheta s =
     (case xytheta of
        [x, y, theta] \<Rightarrow>
          (case theta_to_quat theta of (qw, qx, qy, qz) \<Rightarrow>
             then_do (assign_slice (qpos s) 7 10 [x, y, 2 / 100]) (\<lambda>qpos1.
             then_do (assign_slice qpos1 10 14 [qw, qx, qy, qz]) (\<lambda>qpos2.
             then_do (assign_slice (qvel s) 7 10 [0, 0, 0]) (\<lambda>qvel1.
             then_do (assign_slice qvel1 10 14 [0, 0, 0, 0]) (\<lambda>qvel2.
             Inr (set_state mj qpos2 qvel2 s))))))
      | _ \<Rightarrow> Inl ValueError)"

text \<open>\<^verbatim>\<open>xs[-1]\<close> raises IndexError on an empty array.\<close>

definition last_elem :: "vec \<Rightarrow> error + real" where
  "last_elem xs = (if xs = [] then Inl IndexError else Inr (last xs))"

definition set_goal_xyxytheta :: "mujoco \<Rightarrow> vec \<Rightarrow> env \<Rightarrow> error + env" where
  "set_goal_xyxytheta mj xyxytheta e =
     (let e1 = e\<lparr>goal_xyxytheta := xyxytheta\<rparr>;
          hand_goal = take 2 xyxytheta;
          puck_xy_goal = take 2 (drop 2 xyxytheta)
      in then_do (last_elem xyxytheta) (\<lambda>puck_theta_goal.
         case theta_to_quat puck_theta_goal of (qw, qx, qy, qz) \<Rightarrow>
         then_do (assign_slice (qpos (data e1)) 14 17 (hand_goal @ [2 / 100])) (\<lambda>qpos1.
         then_do (assign_slice (qvel (data e1)) 14 17 [0, 0, 0]) (\<lambda>qvel1.
         then_do (assign_slice qpos1 21 24 (puck_xy_goal @ [2 / 100])) (\<lambda>qpos2.
         then_do (assign_slice qvel1 21 24 [0, 0, 0]) (\<lambda>qvel2.
         then_do (assign_slice qpos2 24 28 [qw, qx, qy, qz]) (\<lambda>qpos3.
         Inr (e1\<lparr>data := set_state mj qpos3 qvel2 (data e1)\<rparr>))))))))"

text \<open>
  \<^verbatim>\<open>mocap_set_action\<close>: the delta is added to the mocap position with broadcasting, the
  sum is clipped to the mocap box, and the result is written as the new target.
\<close>

definition mocap_set_action :: "config \<Rightarrow> vec \<Rightarrow> sim_data \<Rightarrow> error + sim_data" where
  "mocap_set_action cfg action s =
     then_do (np_add (list3 (mocap_pos s)) action) (\<lambda>new_mocap_pos.
     then_do (np_clip new_mocap_pos (mocap_low cfg) (mocap_high cfg)) (\<lambda>clipped.
     then_do (to_vec3 clipped) (\<lambda>row.
     Inr (set_mocap_quat (1, 0, 1, 0) (set_mocap_pos row s)))))"

definition set_hand_xy :: "config \<Rightarrow> mujoco \<Rightarrow> vec \<Rightarrow> sim_data \<Rightarrow> error + sim_data" where
  "set_hand_xy cfg mj xy s =
     (if length xy < 2 then Inl IndexError
      else Inr (((\<lambda>s1. do_simulation mj (replicate 7 0) (frame_skip cfg)
                   (set_mocap_quat (1, 0, 1, 0)
                      (set_mocap_pos (xy ! 0, xy ! 1, 2 / 100) s1))) ^^ 10) s))"

text \<open>
  \<^verbatim>\<open>reset_mocap_welds\<close>: every weld constraint's data row becomes
  \<open>[0, 0, 0, 1, 0, 0, 0]\<close>, then the derived quantities are recomputed.
\<close>

definition reset_mocap_welds :: "mujoco \<Rightarrow> sim_data \<Rightarrow> sim_data" where
  "reset_mocap_welds mj s =
     forward mj
       (case eq_data s of
          None \<Rightarrow> s
        | Some rows \<Rightarrow>
            if 0 < nmocap mj
            then s\<lparr>eq_data := Some (map2 (\<lambda>t row. if t = EQ_WELD then [0, 0, 0, 1, 0, 0, 0] else row)
                                     (eq_type mj) rows)\<rparr>
            else s)"

subsection \<open>Goal and puck sampling\<close>

definition sample_goal_xyxytheta :: "config \<Rightarrow> rng \<Rightarrow> error + vec \<times> rng" where
  "sample_goal_xyxytheta cfg r =
     (if randomize_goals cfg
      then then_do (np_uniform (hand_goal_low cfg) (hand_goal_high cfg) r) (\<lambda>(hand, r1).
           then_do (np_uniform (puck_goal_low cfg) (puck_goal_high cfg) r1) (\<lambda>(puck, r2).
           Inr (hand @ puck, r2)))
      else Inr (fixed_hand_goal cfg @ fixed_puck_goal cfg, r))"

definition sample_goal_for_rollout :: "config \<Rightarrow> rng \<Rightarrow> error + vec \<times> rng" where
  "sample_goal_for_rollout cfg r = sample_goal_xyxytheta cfg r"

text \<open>Only the easy class has \<^verbatim>\<open>sample_puck_xytheta\<close>; on the base class the call raises.\<close>

definition sample_puck_xytheta :: "config \<Rightarrow> rng \<Rightarrow> error + vec \<times> rng" where
  "sample_puck_xytheta cfg r =
     (case cls cfg of
        SawyerPushAndReachTXYEnv \<Rightarrow> Inl AttributeError
      | SawyerPushAndReachTXYEasyEnv \<Rightarrow>
          (case random_sample r of (u, r1) \<Rightarrow> Inr ([0, 6 / 10, (u - 1 / 2) * pi], r1)))"

subsection \<open>Reset\<close>

definition INIT_HAND_POS :: vec3 where
  "INIT_HAND_POS = (0, 4 / 10, 2 / 100)"

definition init_angles :: vec where
  "init_angles =
     [178026069 / 10 ^ 8, - (684415781 / 10 ^ 9), - (154549231 / 10 ^ 9),
      230672090 / 10 ^ 8, 193111471 / 10 ^ 8, 127854012 / 10 ^ 9,
      149353907 / 10 ^ 8, 180196716 / 10 ^ 11, 740415706 / 10 ^ 9,
      209895360 / 10 ^ 10, 1, 0,
      0, 0, - (362518873 / 10 ^ 10),
      613435141 / 10 ^ 9, 209686080 / 10 ^ 10, 707106781 / 10 ^ 9,
      148979724 / 10 ^ 22, 707106781 / 10 ^ 9, - (148999170 / 10 ^ 22),
      0, 6 / 10, 2 / 100,
      1, 0, 1, 0]"

text \<open>
  The first three lines of \<^verbatim>\<open>reset\<close>: the current velocities are read and handed back
  to \<^verbatim>\<open>set_state\<close> together with \<open>init_angles\<close>.
\<close>

definition reset_joints :: "mujoco \<Rightarrow> sim_data \<Rightarrow> sim_data" where
  "reset_joints mj s =
     (let velocities = qvel s; angles = init_angles
      in set_state mj angles velocities s)"

definition reset :: "config \<Rightarrow> mujoco \<Rightarrow> env \<Rightarrow> rng \<Rightarrow> error + env \<times> rng \<times> obs" where
  "reset cfg mj e r =
     (let s1 = reset_joints mj (data e);
          s2 = ((\<lambda>s. set_mocap_quat (1, 0, 1, 0) (set_mocap_pos INIT_HAND_POS s)) ^^ 10) s1
      in then_do (sample_goal_for_rollout cfg r) (\<lambda>(g, r1).
         then_do (set_goal_xyxytheta mj g (e\<lparr>data := s2, goal_xyxytheta := g\<rparr>)) (\<lambda>e3.
         then_do (sample_puck_xytheta cfg r1) (\<lambda>(p, r2).
         then_do (set_puck_xytheta mj p (data e3)) (\<lambda>s4.
           let e5 = e3\<lparr>data := reset_mocap_welds mj s4\<rparr>
           in then_do (get_obs mj e5) (\<lambda>ob. Inr (e5, r2, ob)))))))"

subsection \<open>Step\<close>

record info =
  hand_distance :: real
  puck_distance :: real
  puck_xy_distance :: real
  puck_theta_distance :: real
  touch_distance :: real
  success :: real

text \<open>
  The three-component command \<^verbatim>\<open>new_mocap_action\<close> of \<^verbatim>\<open>step\<close>: the clipped action
  followed by the vertical correction \<open>0.06 - mocap_pos[0, 2]\<close>.
\<close>

definition mocap_delta_z :: "sim_data \<Rightarrow> real" where
  "mocap_delta_z s = (case mocap_pos s of (x, y, z) \<Rightarrow> 6 / 100 - z)"

definition new_mocap_action :: "vec \<Rightarrow> sim_data \<Rightarrow> vec" where
  "new_mocap_action a s = map (\<lambda>x. clip x (- 1) 1) a @ [mocap_delta_z s]"

text \<open>
  The optional block of \<^verbatim>\<open>step\<close> that forces the puck into the goal box, and the block
  that computes the diagnostics record from the accessors.
\<close>

definition force_puck :: "config \<Rightarrow> mujoco \<Rightarrow> sim_data \<Rightarrow> error + sim_data" where
  "force_puck cfg mj s =
     (if force_puck_in_goal_space cfg
      then then_do (get_puck_xytheta mj s) (\<lambda>puck_pos.
           then_do (np_clip (list3 puck_pos) (puck_goal_low cfg) (puck_goal_high cfg)) (\<lambda>clipped.
             if clipped \<noteq> list3 puck_pos then set_puck_xytheta mj clipped s else Inr s))
      else Inr s)"

definition diagnostics :: "mujoco \<Rightarrow> sim_data \<Rightarrow> error + info" where
  "diagnostics mj s =
     then_do (get_hand_goal_pos mj s) (\<lambda>hand_goal.
     then_do (get_endeff_pos mj s) (\<lambda>endeff.
     then_do (get_puck_goal_xytheta mj s) (\<lambda>puck_goal.
     then_do (get_puck_xytheta mj s) (\<lambda>puck.
       let hand_distance = norm3 (sub3 hand_goal endeff);
           puck_distance = norm3 (sub3 puck_goal puck);
           puck_xy_distance =
             linalg_norm (map2 (\<lambda>x y. x - y) (take 2 (list3 puck_goal)) (take 2 (list3 puck)));
           puck_theta_distance = linalg_norm [list3 puck_goal ! 2 - list3 puck ! 2];
           touch_distance = norm3 (sub3 endeff puck)
       in Inr \<lparr>hand_distance = hand_distance, puck_distance = puck_distance,
               puck_xy_distance = puck_xy_distance,
               puck_theta_distance = puck_theta_distance,
               touch_distance = touch_distance,
               success = (if hand_distance + puck_distance < 6 / 100 then 1 else 0)\<rparr>))))"

definition step :: "config \<Rightarrow> mujoco \<Rightarrow> vec \<Rightarrow> env \<Rightarrow> error + env \<times> obs \<times> real \<times> bool \<times> info" where
  "step cfg mj a e =
     (let a1 = map (\<lambda>x. clip x (- 1) 1) a;
          command = map (\<lambda>x. x * pos_action_scale cfg) (take 3 (new_mocap_action a (data e)))
      in then_do (mocap_set_action cfg command (data e)) (\<lambda>s1.
         then_do (force_puck cfg mj s1) (\<lambda>s2.
           let e3 = e\<lparr>data := do_simulation mj (replicate 7 0) (frame_skip cfg) s2\<rparr>
           in then_do (get_obs mj e3) (\<lambda>ob.
              then_do (compute_reward a1 ob) (\<lambda>reward.
              then_do (diagnostics mj (data e3)) (\<lambda>dinfo.
              Inr (e3, ob, reward, False, dinfo)))))))"

subsection \<open>Joint layout\<close>

text \<open>
  Modelled from the spec: the scene XML, which fixes the joints, is not in the source file.
  Section 4.8 describes the 28 joint positions as "covering arm, puck, and goal-marker
  degrees of freedom"; \<open>init_angles\<close> and the mutators place the arm at entries 0 to 6
  of \<open>qpos\<close>, the puck at 7 to 13, the hand-goal marker at 14 to 20 and the puck-goal
  marker at 21 to 27, each of the three bodies with three position entries followed by a
  four-entry quaternion. A joint whose position carries a quaternion has three angular
  velocity entries, so each of these bodies has six entries of \<open>qvel\<close>, which has 25
  entries: the arm at 0 to 6, the puck at 7 to 12, the hand-goal marker at 13 to 18 and
  the puck-goal marker at 19 to 24.
\<close>

datatype body = Arm | Puck | HandGoal | PuckGoal

definition qpos_body :: "nat \<Rightarrow> body" where
  "qpos_body i =
     (if i < 7 then Arm else if i < 14 then Puck else if i < 21 then HandGoal else PuckGoal)"

definition qvel_body :: "nat \<Rightarrow> body" where
  "qvel_body i =
     (if i < 7 then Arm else if i < 13 then Puck else if i < 19 then HandGoal else PuckGoal)"

subsection \<open>An example scene\<close>

text \<open>
  A small concrete scene and state on which the operations can be run: the four named
  bodies, an engine whose kinematics puts every body at one place and whose simulation
  leaves the state as it is, and a state with 28 joint
  positions and 25 joint velocities in which the hand goal is at distance \<open>d\<close> from the
  end effector and the puck sits on its goal.
\<close>

definition example_scene :: mujoco where
  "example_scene =
     \<lparr>body_names = [''world'', ''leftclaw'', ''puck'', ''hand-goal'', ''puck-goal'', ''mocap''],
      nmocap = 1, eq_type = [1],
      kinematics = (\<lambda>s. (\<lambda>i. (0, 6 / 10, 6 / 100), \<lambda>i. (1, 0, 0, 0))),
      simulate = (\<lambda>u n s. s)\<rparr>"

definition example_data :: "real \<Rightarrow> sim_data" where
  "example_data d =
     \<lparr>qpos = init_angles, qvel = replicate 25 1,
      mocap_pos = (0, 6 / 10, 6 / 100), mocap_quat = (1, 0, 1, 0),
      body_xpos = (\<lambda>i. if i = 3 then (d, 6 / 10, 6 / 100) else (0, 6 / 10, 6 / 100)),
      body_xquat = (\<lambda>i. (1, 0, 0, 0)),
      eq_data = Some [[0, 0, 0, 1, 0, 0, 0]]\<rparr>"

definition example_env :: "real \<Rightarrow> env" where
  "example_env d = \<lparr>data = example_data d, goal_xyxytheta = [0, 6 / 10, 0, 6 / 10, 0]\<rparr>"

section \<open>Properties\<close>

subsection \<open>Helper lemmas\<close>

lemma then_do_Inr [simp]: "then_do (Inr x) f = f x"
  by (simp add: then_do_def)

lemma then_do_Inl [simp]: "then_do (Inl e) f = Inl e"
  by (simp add: then_do_def)

lemma then_do_eq_Inr: "then_do m f = Inr y \<longleftrightarrow> (\<exists>x. m = Inr x \<and> f x = Inr y)"
  by (cases m) simp_all

lemma dot_self_nonneg: "0 \<le> dot xs xs"
  unfolding dot_def by (induction xs) simp_all

lemma dot_self_zero: "dot xs xs = 0 \<longleftrightarrow> (\<forall>x \<in> set xs. x = 0)"
proof (induction xs)
  case Nil
  show ?case by (simp add: dot_def)
next
  case (Cons a xs)
  have nn: "0 \<le> dot xs xs" by (rule dot_self_nonneg)
  have step: "dot (a # xs) (a # xs) = a * a + dot xs xs" by (simp add: dot_def)
  have "a * a + dot xs xs = 0 \<longleftrightarrow> a = 0 \<and> dot xs xs = 0"
    using nn by (smt (verit) mult_eq_0_iff zero_le_square)
  with Cons step show ?case by simp
qed

lemma dot_self_sum: "dot xs xs = (\<Sum>i<length xs. (xs ! i)\<^sup>2)"
proof -
  have "dot xs xs = sum_list (map (\<lambda>x. x\<^sup>2) xs)"
    unfolding dot_def by (induction xs) (simp_all add: power2_eq_square)
  also have "\<dots> = (\<Sum>i<length xs. (xs ! i)\<^sup>2)"
    by (simp add: sum_list_sum_nth atLeast0LessThan)
  finally show ?thesis .
qed

lemma map2_sub_zero:
  "length a = length d \<Longrightarrow> (\<forall>x \<in> set (map2 (\<lambda>x y. x - y) a d). x = (0::real)) \<longleftrightarrow> a = d"
proof (induction a arbitrary: d)
  case Nil
  then show ?case by simp
next
  case (Cons x xs)
  then obtain y ys where d: "d = y # ys" by (cases d) auto
  with Cons show ?case by auto
qed

lemma arctan2_sin_cos:
  "sin (arctan2 (sin t) (cos t)) = sin t \<and> cos (arctan2 (sin t) (cos t)) = cos t"
proof -
  have one: "(sin t)\<^sup>2 + (cos t)\<^sup>2 = 1" by simp
  consider (pos) "0 < cos t" | (neg) "cos t < 0" | (zero) "cos t = 0" by linarith
  then show ?thesis
  proof cases
    case pos
    have "1 + (sin t / cos t)\<^sup>2 = 1 / (cos t)\<^sup>2"
      using pos one by (simp add: field_simps power2_eq_square)
    then have s: "sqrt (1 + (sin t / cos t)\<^sup>2) = 1 / cos t"
      using pos by (simp add: real_sqrt_divide)
    show ?thesis using pos s by (simp add: arctan2_def cos_arctan sin_arctan)
  next
    case neg
    have "1 + (sin t / cos t)\<^sup>2 = 1 / (cos t)\<^sup>2"
      using neg one by (simp add: field_simps power2_eq_square)
    then have s: "sqrt (1 + (sin t / cos t)\<^sup>2) = - (1 / cos t)"
      using neg by (simp add: real_sqrt_divide)
    show ?thesis using neg s by (simp add: arctan2_def cos_arctan sin_arctan)
  next
    case zero
    then have "sin t = 1 \<or> sin t = - 1"
      using one by (simp add: power2_eq_1_iff)
    then show ?thesis using zero by (auto simp: arctan2_def)
  qed
qed

lemma arctan2_range: "- pi < arctan2 y x \<and> arctan2 y x \<le> pi"
proof -
  have b: "- (pi / 2) < arctan (y / x)" "arctan (y / x) < pi / 2"
    by (rule arctan_lbound, rule arctan_ubound)
  have p: "0 < pi" by simp
  show ?thesis
  proof (cases "x < 0 \<and> 0 \<le> y")
    case True
    then have "y / x \<le> 0" by (simp add: divide_nonneg_neg)
    then have "arctan (y / x) \<le> 0" by simp
    moreover have "arctan2 y x = arctan (y / x) + pi" using True by (simp add: arctan2_def)
    ultimately show ?thesis using b p by linarith
  next
    case False
    show ?thesis
    proof (cases "x < 0")
      case True
      with False have "y < 0" by simp
      with True have "0 < y / x" by (simp add: divide_neg_neg)
      then have "0 < arctan (y / x)" by simp
      moreover have "arctan2 y x = arctan (y / x) - pi"
        using True \<open>y < 0\<close> by (simp add: arctan2_def)
      ultimately show ?thesis using b p by linarith
    next
      case False
      with b p show ?thesis by (auto simp: arctan2_def)
    qed
  qed
qed

lemma theta_to_quat_eq: "theta_to_quat t = (cos (t / 2), 0, 0, sin (t / 2))"
  by (simp add: theta_to_quat_def from_euler_zxy_def compose_quat_def)

lemma from_quat_unit:
  "x * x + y * y + z * z + w * w = 1 \<Longrightarrow> from_quat (x, y, z, w) = Inr (x, y, z, w)"
  unfolding from_quat_def by (simp only: Let_def prod.case real_sqrt_one) simp

lemma no_gimbal_lock_at_zero: "\<not> pi / 2 - \<bar>arcsin 0\<bar> \<le> 1 / 10 ^ 7"
  using pi_ge_two by simp

lemma quat_to_theta_z:
  "quat_to_theta 0 0 (sin (t / 2)) (cos (t / 2)) = Inr (arctan2 (sin t) (cos t))"
proof -
  have n: "0 * 0 + 0 * 0 + sin (t / 2) * sin (t / 2) + cos (t / 2) * cos (t / 2) = (1::real)"
    using sin_cos_squared_add [of "t / 2"] by (simp add: power2_eq_square)
  have s: "2 * (sin (t / 2) * cos (t / 2)) = sin t"
    using sin_double [of "t / 2"] by simp
  have c: "1 - 2 * (sin (t / 2) * sin (t / 2)) = cos t"
    using cos_double_sin [of "t / 2"] by (simp add: power2_eq_square)
  show ?thesis
    unfolding quat_to_theta_def from_quat_unit [OF n]
    using no_gimbal_lock_at_zero by (simp add: as_euler_zyx_first_def s c)
qed

lemma assign_slice_frame:
  assumes "assign_slice xs i j vs = Inr ys"
  shows "length ys = length xs \<and>
         (\<forall>k. k < length xs \<and> (k < i \<or> j \<le> k) \<longrightarrow> ys ! k = xs ! k)"
proof -
  define n where "n = length xs"
  define lo where "lo = min i n"
  define hi where "hi = max lo (min j n)"
  have b: "lo \<le> hi" "hi \<le> n" "lo \<le> i" by (simp_all add: lo_def hi_def)
  have "ys = take lo xs @ vs @ drop hi xs \<and> length vs = hi - lo \<or>
        ys = take lo xs @ replicate (hi - lo) (hd vs) @ drop hi xs"
    using assms unfolding assign_slice_def Let_def n_def [symmetric] lo_def [symmetric]
      hi_def [symmetric]
    by (auto split: if_splits)
  then obtain w where w: "length w = hi - lo" and ys: "ys = take lo xs @ w @ drop hi xs"
  proof
    assume "ys = take lo xs @ vs @ drop hi xs \<and> length vs = hi - lo"
    then show thesis using that [of vs] by simp
  next
    assume "ys = take lo xs @ replicate (hi - lo) (hd vs) @ drop hi xs"
    then show thesis using that [of "replicate (hi - lo) (hd vs)"] by simp
  qed
  have len: "length ys = n" using b w by (simp add: ys n_def)
  have "ys ! k = xs ! k" if kn: "k < n" and k: "k < i \<or> j \<le> k" for k
  proof (cases "k < i")
    case True
    with kn have "k < lo" by (simp add: lo_def)
    then show ?thesis using b by (simp add: ys nth_append n_def)
  next
    case False
    with k have "j \<le> k" by simp
    with kn False have hk: "hi \<le> k" by (simp add: hi_def lo_def)
    have l1: "length (take lo xs) = lo" using b by (simp add: n_def)
    have n1: "\<not> k < lo" using hk b by simp
    have n2: "\<not> k - lo < hi - lo" using hk b by arith
    have e: "hi + (k - lo - (hi - lo)) = k" using hk b by arith
    have "ys ! k = drop hi xs ! (k - lo - (hi - lo))"
      unfolding ys by (simp only: nth_append l1 n1 n2 w if_False)
    also have "\<dots> = xs ! k" using b e by (simp add: n_def)
    finally show ?thesis .
  qed
  with len show ?thesis by (simp add: n_def)
qed

lemma assign_slice_exact:
  assumes "assign_slice xs i j vs = Inr ys" and "length vs = j - i" and "1 < length vs"
  shows "j \<le> length xs \<and> ys = take i xs @ vs @ drop j xs"
proof -
  have ij: "i < j" using assms(2,3) by simp
  show ?thesis
  proof (cases "j \<le> length xs")
    case True
    then show ?thesis
      using assms ij by (auto simp: assign_slice_def Let_def min_def max_def split: if_splits)
  next
    case False
    then have "max (min i (length xs)) (min j (length xs)) - min i (length xs) < j - i"
      using ij by (simp add: min_def max_def; arith)
    then show ?thesis
      using assms by (auto simp: assign_slice_def Let_def split: if_splits)
  qed
qed

lemma assign_slice_in_range:
  "i \<le> j \<Longrightarrow> j \<le> length xs \<Longrightarrow> length vs = j - i \<Longrightarrow>
     assign_slice xs i j vs = Inr (take i xs @ vs @ drop j xs)"
  by (simp add: assign_slice_def Let_def min_def max_def)

lemma forward_fields [simp]:
  "qpos (forward mj s) = qpos s" "qvel (forward mj s) = qvel s"
  "mocap_pos (forward mj s) = mocap_pos s" "mocap_quat (forward mj s) = mocap_quat s"
  "eq_data (forward mj s) = eq_data s"
  by (simp_all add: forward_def)

lemma set_state_fields [simp]:
  "qpos (set_state mj q v s) = q" "qvel (set_state mj q v s) = v"
  "mocap_pos (set_state mj q v s) = mocap_pos s" "mocap_quat (set_state mj q v s) = mocap_quat s"
  "eq_data (set_state mj q v s) = eq_data s"
  by (simp_all add: set_state_def)

lemma set_puck_xytheta_result:
  assumes "set_puck_xytheta mj [x, y, theta] s = Inr s'"
  shows "14 \<le> length (qpos s) \<and> 14 \<le> length (qvel s) \<and>
         s' = set_state mj
                (take 7 (qpos s) @ [x, y, 2 / 100, cos (theta / 2), 0, 0, sin (theta / 2)]
                   @ drop 14 (qpos s))
                (take 7 (qvel s) @ [0, 0, 0, 0, 0, 0, 0] @ drop 14 (qvel s)) s"
proof -
  obtain q1 q2 v1 v2 where
    q1: "assign_slice (qpos s) 7 10 [x, y, 2 / 100] = Inr q1" and
    q2: "assign_slice q1 10 14 [cos (theta / 2), 0, 0, sin (theta / 2)] = Inr q2" and
    v1: "assign_slice (qvel s) 7 10 [0, 0, 0] = Inr v1" and
    v2: "assign_slice v1 10 14 [0, 0, 0, 0] = Inr v2" and
    s': "s' = set_state mj q2 v2 s"
    using assms unfolding set_puck_xytheta_def theta_to_quat_eq
    by (auto simp: then_do_eq_Inr)
  have a1: "10 \<le> length (qpos s) \<and> q1 = take 7 (qpos s) @ [x, y, 2 / 100] @ drop 10 (qpos s)"
    using assign_slice_exact [OF q1] by simp
  have a2: "14 \<le> length q1 \<and> q2 = take 10 q1 @ [cos (theta / 2), 0, 0, sin (theta / 2)] @ drop 14 q1"
    using assign_slice_exact [OF q2] by simp
  have b1: "10 \<le> length (qvel s) \<and> v1 = take 7 (qvel s) @ [0, 0, 0] @ drop 10 (qvel s)"
    using assign_slice_exact [OF v1] by simp
  have b2: "14 \<le> length v1 \<and> v2 = take 10 v1 @ [0, 0, 0, 0] @ drop 14 v1"
    using assign_slice_exact [OF v2] by simp
  have lq: "length q1 = length (qpos s)" using assign_slice_frame [OF q1] by simp
  have lv: "length v1 = length (qvel s)" using assign_slice_frame [OF v1] by simp
  have "q2 = take 7 (qpos s) @ [x, y, 2 / 100, cos (theta / 2), 0, 0, sin (theta / 2)]
               @ drop 14 (qpos s)"
    using a1 a2 by (simp add: min_def)
  moreover have "v2 = take 7 (qvel s) @ [0, 0, 0, 0, 0, 0, 0] @ drop 14 (qvel s)"
    using b1 b2 by (simp add: min_def)
  ultimately show ?thesis using a2 b2 lq lv s' by simp
qed

lemma set_puck_xytheta_slots:
  assumes "set_puck_xytheta mj [x, y, theta] s = Inr s'"
  shows "take 3 (drop 7 (qpos s')) = [x, y, 2 / 100] \<and>
         take 4 (drop 10 (qpos s')) = (case theta_to_quat theta of (qw, qx, qy, qz) \<Rightarrow> [qw, qx, qy, qz]) \<and>
         take 7 (drop 7 (qvel s')) = [0, 0, 0, 0, 0, 0, 0] \<and>
         length (qpos s') = length (qpos s) \<and> length (qvel s') = length (qvel s) \<and>
         (\<forall>i. i < 7 \<or> 14 \<le> i \<longrightarrow> qpos s' ! i = qpos s ! i \<and> qvel s' ! i = qvel s ! i) \<and>
         mocap_pos s' = mocap_pos s \<and> mocap_quat s' = mocap_quat s \<and> eq_data s' = eq_data s"
proof -
  let ?q = "[x, y, 2 / 100, cos (theta / 2), 0, 0, sin (theta / 2)]"
  let ?v = "[0, 0, 0, 0, 0, 0, 0 :: real]"
  from set_puck_xytheta_result [OF assms]
  have lq: "14 \<le> length (qpos s)" and lv: "14 \<le> length (qvel s)"
    and qp: "qpos s' = take 7 (qpos s) @ ?q @ drop 14 (qpos s)"
    and qv: "qvel s' = take 7 (qvel s) @ ?v @ drop 14 (qvel s)"
    and rest: "mocap_pos s' = mocap_pos s" "mocap_quat s' = mocap_quat s" "eq_data s' = eq_data s"
    by simp_all
  have t7q: "length (take 7 (qpos s)) = 7" and t7v: "length (take 7 (qvel s)) = 7"
    using lq lv by simp_all
  have frame: "(take 7 zs @ w @ drop 14 zs) ! i = zs ! i"
    if "14 \<le> length zs" "length w = 7" "i < 7 \<or> 14 \<le> i" for zs w :: "real list" and i
  proof (cases "i < 7")
    case True
    then show ?thesis using that by (simp add: nth_append)
  next
    case False
    with that have i: "14 \<le> i" by simp
    have e: "14 + (i - 7 - 7) = i" using i by arith
    have n: "\<not> i < 7" "\<not> i - 7 < 7" using i by arith+
    have l: "length (take 7 zs) = 7" using that by simp
    have "(take 7 zs @ w @ drop 14 zs) ! i = drop 14 zs ! (i - 7 - 7)"
      by (simp only: nth_append l n that(2) if_False)
    also have "\<dots> = zs ! i" using that(1) e by simp
    finally show ?thesis .
  qed
  have "take 3 (drop 7 (qpos s')) = [x, y, 2 / 100]" using t7q by (simp add: qp)
  moreover have "take 4 (drop 10 (qpos s')) =
      (case theta_to_quat theta of (qw, qx, qy, qz) \<Rightarrow> [qw, qx, qy, qz])"
    using t7q by (simp add: qp theta_to_quat_eq)
  moreover have "take 7 (drop 7 (qvel s')) = ?v" using t7v by (simp add: qv)
  moreover have "length (qpos s') = length (qpos s)" using lq by (simp add: qp)
  moreover have "length (qvel s') = length (qvel s)" using lv by (simp add: qv)
  moreover have "qpos s' ! i = qpos s ! i" if "i < 7 \<or> 14 \<le> i" for i
    unfolding qp by (rule frame [OF lq _ that]) simp
  moreover have "qvel s' ! i = qvel s ! i" if "i < 7 \<or> 14 \<le> i" for i
    unfolding qv by (rule frame [OF lv _ that]) simp
  ultimately show ?thesis using rest by simp
qed

lemma np_uniform_same_length:
  assumes "length low = length high"
  shows "np_uniform low high r =
           Inr (map (\<lambda>i. low ! i + (high ! i - low ! i) * r i) [0..<length low],
                \<lambda>i. r (length low + i))"
proof -
  have "map2 (\<lambda>(l, h) u. l + (h - l) * u) (map2 Pair low high) (map r [0..<length low]) =
        map (\<lambda>i. low ! i + (high ! i - low ! i) * r i) [0..<length low]"
    using assms by (intro nth_equalityI) simp_all
  then show ?thesis
    using assms by (simp add: np_uniform_def broadcast2_def)
qed

lemma set_hand_xy_mocap:
  assumes "set_hand_xy cfg mj xy s = Inr s'"
    and "\<forall>u n t. mocap_pos (simulate mj u n t) = mocap_pos t"
  shows "mocap_pos s' = (xy ! 0, xy ! 1, 2 / 100)"
proof -
  let ?f = "\<lambda>s1. do_simulation mj (replicate 7 0) (frame_skip cfg)
                 (set_mocap_quat (1, 0, 1, 0) (set_mocap_pos (xy ! 0, xy ! 1, 2 / 100) s1))"
  have ten: "(10::nat) = Suc 9" by simp
  have unroll: "(?f ^^ 10) s = ?f ((?f ^^ 9) s)"
    by (simp only: ten funpow.simps o_apply)
  from assms(1) have "s' = (?f ^^ 10) s"
    by (simp add: set_hand_xy_def split: if_splits)
  then have "s' = ?f ((?f ^^ 9) s)" by (simp only: unroll)
  then show ?thesis
    using assms(2) by (simp add: do_simulation_def set_mocap_pos_def set_mocap_quat_def)
qed

lemma mocap_delta_z_eq: "mocap_delta_z s = 6 / 100 - snd (snd (mocap_pos s))"
  by (simp add: mocap_delta_z_def split: prod.splits)

lemma norm3_eq: "norm3 (a, b, c) = sqrt (a\<^sup>2 + b\<^sup>2 + c\<^sup>2)"
  by (simp add: norm3_def list3_def linalg_norm_def dot_def power2_eq_square)

lemma set_mocap_fields [simp]:
  "mocap_pos (set_mocap_pos v s) = v" "mocap_quat (set_mocap_pos v s) = mocap_quat s"
  "qpos (set_mocap_pos v s) = qpos s" "qvel (set_mocap_pos v s) = qvel s"
  "mocap_pos (set_mocap_quat q s) = mocap_pos s" "mocap_quat (set_mocap_quat q s) = q"
  "qpos (set_mocap_quat q s) = qpos s" "qvel (set_mocap_quat q s) = qvel s"
  by (simp_all add: set_mocap_pos_def set_mocap_quat_def)

lemma np_add3_length:
  assumes "np_add [x, y, z] action = Inr n"
  shows "\<exists>dx dy dz. (action = [dx, dy, dz] \<or> action = [dx] \<and> dy = dx \<and> dz = dx) \<and>
           n = [x + dx, y + dy, z + dz]"
proof (cases "length action = 3")
  case True
  then obtain dx dy dz where "action = [dx, dy, dz]"
    by (cases action; simp) (metis length_0_conv length_Suc_conv numeral_2_eq_2 One_nat_def Suc_1
        length_Cons list.size(3) nat.inject neq_Nil_conv)
  with assms show ?thesis by (simp add: np_add_def broadcast2_def)
next
  case False
  with assms have "length action = 1"
    by (simp add: np_add_def broadcast2_def split: if_splits)
  then obtain dx where "action = [dx]" by (cases action) simp_all
  with assms show ?thesis by (simp add: np_add_def broadcast2_def)
qed

lemma np_clip3:
  "np_clip [a, b, c] [lx, ly, lz] [hx, hy, hz] = Inr [clip a lx hx, clip b ly hy, clip c lz hz]"
  by (simp add: np_clip_def broadcast2_def clip_def)

lemma mocap_set_action_3:
  assumes "mocap_set_action cfg action s = Inr s'"
    and "mocap_low cfg = [lx, ly, lz]" and "mocap_high cfg = [hx, hy, hz]"
    and "mocap_pos s = (x, y, z)"
  shows "\<exists>dx dy dz. (action = [dx, dy, dz] \<or> action = [dx] \<and> dy = dx \<and> dz = dx) \<and>
           mocap_pos s' = (clip (x + dx) lx hx, clip (y + dy) ly hy, clip (z + dz) lz hz) \<and>
           mocap_quat s' = (1, 0, 1, 0) \<and> qpos s' = qpos s \<and> qvel s' = qvel s"
proof -
  obtain n c row where n: "np_add [x, y, z] action = Inr n"
    and c: "np_clip n [lx, ly, lz] [hx, hy, hz] = Inr c"
    and row: "to_vec3 c = Inr row"
    and s': "s' = set_mocap_quat (1, 0, 1, 0) (set_mocap_pos row s)"
    using assms by (auto simp: mocap_set_action_def then_do_eq_Inr list3_def)
  from np_add3_length [OF n] obtain dx dy dz where
    act: "action = [dx, dy, dz] \<or> action = [dx] \<and> dy = dx \<and> dz = dx"
    and nv: "n = [x + dx, y + dy, z + dz]" by blast
  from c have "c = [clip (x + dx) lx hx, clip (y + dy) ly hy, clip (z + dz) lz hz]"
    unfolding nv np_clip3 by simp
  with row have "row = (clip (x + dx) lx hx, clip (y + dy) ly hy, clip (z + dz) lz hz)"
    by (simp add: to_vec3_def)
  with act s' show ?thesis by auto
qed

lemma clip_in_range: "lo \<le> hi \<Longrightarrow> lo \<le> clip x lo hi \<and> clip x lo hi \<le> hi"
  by (simp add: clip_def)

lemma clip_inside: "lo \<le> x \<Longrightarrow> x \<le> hi \<Longrightarrow> clip x lo hi = x"
  by (simp add: clip_def)

lemma set_puck_xytheta_mocap:
  assumes "set_puck_xytheta mj v s = Inr s'"
  shows "mocap_pos s' = mocap_pos s"
proof -
  from assms obtain x y theta where "v = [x, y, theta]"
    by (auto simp: set_puck_xytheta_def split: list.splits)
  with assms set_puck_xytheta_result [of mj x y theta s s'] show ?thesis by simp
qed

lemma force_puck_mocap:
  assumes "force_puck cfg mj s = Inr s'"
  shows "mocap_pos s' = mocap_pos s"
  using assms
  by (auto simp: force_puck_def then_do_eq_Inr split: if_splits dest: set_puck_xytheta_mocap)

lemma step_parts:
  assumes "step cfg mj a e = Inr (e', ob, rew, d, dinfo)"
  shows "\<exists>s1 s2.
           mocap_set_action cfg
             (map (\<lambda>x. x * pos_action_scale cfg) (take 3 (new_mocap_action a (data e))))
             (data e) = Inr s1 \<and>
           force_puck cfg mj s1 = Inr s2 \<and>
           e' = e\<lparr>data := do_simulation mj (replicate 7 0) (frame_skip cfg) s2\<rparr> \<and>
           get_obs mj e' = Inr ob \<and>
           compute_reward (map (\<lambda>x. clip x (- 1) 1) a) ob = Inr rew \<and>
           diagnostics mj (data e') = Inr dinfo \<and> d = False"
  using assms unfolding step_def Let_def by (auto simp: then_do_eq_Inr)

lemma diagnostics_result:
  assumes "diagnostics mj s = Inr dinfo"
  shows "\<exists>hg ee pg p.
           get_hand_goal_pos mj s = Inr hg \<and> get_endeff_pos mj s = Inr ee \<and>
           get_puck_goal_xytheta mj s = Inr pg \<and> get_puck_xytheta mj s = Inr p \<and>
           hand_distance dinfo = norm3 (sub3 hg ee) \<and>
           puck_distance dinfo = norm3 (sub3 pg p) \<and>
           touch_distance dinfo = norm3 (sub3 ee p) \<and>
           success dinfo = (if hand_distance dinfo + puck_distance dinfo < 6 / 100 then 1 else 0)"
  using assms unfolding diagnostics_def Let_def by (auto simp: then_do_eq_Inr)

lemma get_obs_goal:
  assumes "get_obs mj e = Inr ob"
  shows "ob ''desired_goal'' = Some (goal_xyxytheta e) \<and>
         ob ''state_desired_goal'' = Some (goal_xyxytheta e)"
  using assms unfolding get_obs_def Let_def by (auto simp: then_do_eq_Inr)

lemma reset_mocap_welds_fields [simp]:
  "qpos (reset_mocap_welds mj s) = qpos s" "qvel (reset_mocap_welds mj s) = qvel s"
  "mocap_pos (reset_mocap_welds mj s) = mocap_pos s"
  "mocap_quat (reset_mocap_welds mj s) = mocap_quat s"
  by (simp_all add: reset_mocap_welds_def split: option.splits)

lemma recenter_fields:
  "mocap_pos (((\<lambda>s. set_mocap_quat q (set_mocap_pos v s)) ^^ Suc n) s) = v"
  "mocap_quat (((\<lambda>s. set_mocap_quat q (set_mocap_pos v s)) ^^ Suc n) s) = q"
  "qpos (((\<lambda>s. set_mocap_quat q (set_mocap_pos v s)) ^^ n) s) = qpos s"
  "qvel (((\<lambda>s. set_mocap_quat q (set_mocap_pos v s)) ^^ n) s) = qvel s"
proof -
  show "mocap_pos (((\<lambda>s. set_mocap_quat q (set_mocap_pos v s)) ^^ Suc n) s) = v" by simp
  show "mocap_quat (((\<lambda>s. set_mocap_quat q (set_mocap_pos v s)) ^^ Suc n) s) = q" by simp
  show "qpos (((\<lambda>s. set_mocap_quat q (set_mocap_pos v s)) ^^ n) s) = qpos s"
    by (induction n) simp_all
  show "qvel (((\<lambda>s. set_mocap_quat q (set_mocap_pos v s)) ^^ n) s) = qvel s"
    by (induction n) simp_all
qed

lemma reset_joints_fields [simp]:
  "qpos (reset_joints mj s) = init_angles" "qvel (reset_joints mj s) = qvel s"
  "mocap_pos (reset_joints mj s) = mocap_pos s"
  by (simp_all add: reset_joints_def)

lemma set_goal_xyxytheta_result:
  assumes "set_goal_xyxytheta mj g e = Inr e'"
  shows "goal_xyxytheta e' = g \<and> mocap_pos (data e') = mocap_pos (data e) \<and>
         mocap_quat (data e') = mocap_quat (data e) \<and>
         length (qvel (data e')) = length (qvel (data e)) \<and>
         (\<forall>k. k < length (qvel (data e)) \<and> (k < 14 \<or> 17 \<le> k \<and> k < 21 \<or> 24 \<le> k)
              \<longrightarrow> qvel (data e') ! k = qvel (data e) ! k)"
proof -
  obtain q3 v1 v2 where
    v1: "assign_slice (qvel (data e)) 14 17 [0, 0, 0] = Inr v1" and
    v2: "assign_slice v1 21 24 [0, 0, 0] = Inr v2" and
    e': "e' = e\<lparr>goal_xyxytheta := g, data := set_state mj q3 v2 (data e)\<rparr>"
    using assms unfolding set_goal_xyxytheta_def Let_def theta_to_quat_eq
    by (auto simp: then_do_eq_Inr)
  note f1 = assign_slice_frame [OF v1] and f2 = assign_slice_frame [OF v2]
  have "qvel (data e') ! k = qvel (data e) ! k"
    if "k < length (qvel (data e))" "k < 14 \<or> 17 \<le> k \<and> k < 21 \<or> 24 \<le> k" for k
  proof -
    have "v2 ! k = v1 ! k" using f2 f1 that by auto
    also have "\<dots> = qvel (data e) ! k" using f1 that by auto
    finally show ?thesis by (simp add: e')
  qed
  moreover have "length (qvel (data e')) = length (qvel (data e))"
    using f1 f2 by (simp add: e')
  ultimately show ?thesis by (simp add: e')
qed

lemma set_puck_xytheta_qvel:
  assumes "set_puck_xytheta mj v s = Inr s'"
  shows "mocap_quat s' = mocap_quat s \<and> length (qvel s') = length (qvel s) \<and>
         (\<forall>k. k < length (qvel s) \<and> (k < 7 \<or> 14 \<le> k) \<longrightarrow> qvel s' ! k = qvel s ! k)"
proof -
  from assms obtain x y theta where v: "v = [x, y, theta]"
    by (auto simp: set_puck_xytheta_def split: list.splits)
  obtain q2 v1 v2 where
    v1: "assign_slice (qvel s) 7 10 [0, 0, 0] = Inr v1" and
    v2: "assign_slice v1 10 14 [0, 0, 0, 0] = Inr v2" and
    s': "s' = set_state mj q2 v2 s"
    using assms unfolding v set_puck_xytheta_def theta_to_quat_eq
    by (auto simp: then_do_eq_Inr)
  note f1 = assign_slice_frame [OF v1] and f2 = assign_slice_frame [OF v2]
  have "qvel s' ! k = qvel s ! k" if "k < length (qvel s)" "k < 7 \<or> 14 \<le> k" for k
  proof -
    have "v2 ! k = v1 ! k" using f2 f1 that by auto
    also have "\<dots> = qvel s ! k" using f1 that by auto
    finally show ?thesis by (simp add: s')
  qed
  moreover have "length (qvel s') = length (qvel s)" using f1 f2 by (simp add: s')
  moreover have "mocap_quat s' = mocap_quat s" by (simp add: s')
  ultimately show ?thesis by simp
qed

lemma reset_result:
  assumes "reset cfg mj e r = Inr (e', r', ob)"
  shows "\<exists>g r1. sample_goal_xyxytheta cfg r = Inr (g, r1) \<and> goal_xyxytheta e' = g \<and>
           ob ''desired_goal'' = Some g \<and> ob ''state_desired_goal'' = Some g \<and>
           mocap_pos (data e') = INIT_HAND_POS \<and>
           (\<forall>k. k < length (qvel (data e)) \<and> (k < 7 \<or> 17 \<le> k \<and> k < 21 \<or> 24 \<le> k)
                \<longrightarrow> qvel (data e') ! k = qvel (data e) ! k)"
proof -
  let ?s2 = "((\<lambda>s. set_mocap_quat (1, 0, 1, 0) (set_mocap_pos INIT_HAND_POS s)) ^^ 10)
               (reset_joints mj (data e))"
  obtain g r1 e3 p s4 where
    sg: "sample_goal_xyxytheta cfg r = Inr (g, r1)" and
    g3: "set_goal_xyxytheta mj g (e\<lparr>data := ?s2, goal_xyxytheta := g\<rparr>) = Inr e3" and
    sp: "set_puck_xytheta mj p (data e3) = Inr s4" and
    e': "e' = e3\<lparr>data := reset_mocap_welds mj s4\<rparr>" and
    ob: "get_obs mj e' = Inr ob"
    using assms unfolding reset_def Let_def sample_goal_for_rollout_def
    by (auto simp: then_do_eq_Inr split: prod.splits)
  have ten: "(10::nat) = Suc 9" by simp
  have m2: "mocap_pos ?s2 = INIT_HAND_POS" unfolding ten by (rule recenter_fields(1))
  have v2: "qvel ?s2 = qvel (data e)" by (simp add: recenter_fields(4))
  note a = set_goal_xyxytheta_result [OF g3]
  note b = set_puck_xytheta_qvel [OF sp] and bm = set_puck_xytheta_mocap [OF sp]
  have goal: "goal_xyxytheta e' = g" using a by (simp add: e')
  have mp: "mocap_pos (data e') = INIT_HAND_POS" using a bm m2 by (simp add: e')
  have fr: "qvel (data e') ! k = qvel (data e) ! k"
    if "k < length (qvel (data e))" "k < 7 \<or> 17 \<le> k \<and> k < 21 \<or> 24 \<le> k" for k
  proof -
    have l3: "length (qvel (data e3)) = length (qvel (data e))" using a v2 by simp
    have "qvel (data e') ! k = qvel (data e3) ! k" using b that l3 by (auto simp: e')
    also have "\<dots> = qvel ?s2 ! k" using a that v2 by auto
    finally show ?thesis by (simp add: v2)
  qed
  from get_obs_goal [OF ob] sg goal mp fr show ?thesis by auto
qed

lemma compute_reward_same:
  "compute_reward act
     [''observation'' \<mapsto> x, ''state_observation'' \<mapsto> x,
      ''desired_goal'' \<mapsto> x, ''state_desired_goal'' \<mapsto> x,
      ''achieved_goal'' \<mapsto> x, ''state_achieved_goal'' \<mapsto> x] = Inr 0"
proof -
  have "dot (map2 (\<lambda>x y. x - y) x x) (map2 (\<lambda>x y. x - y) x x) = 0"
    using map2_sub_zero [of x x] by (simp only: dot_self_zero)
  then show ?thesis
    by (simp add: compute_reward_def lookup_def np_subtract_def broadcast2_def linalg_norm_def)
qed

lemma accessors_cong:
  assumes "body_xpos s = body_xpos t" and "body_xquat s = body_xquat t"
  shows "get_endeff_pos mj s = get_endeff_pos mj t"
    and "get_hand_goal_pos mj s = get_hand_goal_pos mj t"
    and "get_puck_xytheta mj s = get_puck_xytheta mj t"
    and "get_puck_goal_xytheta mj s = get_puck_goal_xytheta mj t"
    and "diagnostics mj s = diagnostics mj t"
  by (simp_all add: get_endeff_pos_def get_hand_goal_pos_def get_puck_xytheta_def
      get_puck_goal_xytheta_def diagnostics_def assms)

lemma get_obs_cong:
  assumes "body_xpos (data e) = body_xpos (data f)" and "body_xquat (data e) = body_xquat (data f)"
    and "goal_xyxytheta e = goal_xyxytheta f"
  shows "get_obs mj e = get_obs mj f"
  by (simp add: get_obs_def accessors_cong(1,3) [OF assms(1,2)] assms(3))

lemma example_ids:
  "endeff_id example_scene = Inr 1" "puck_id example_scene = Inr 2"
  "hand_goal_id example_scene = Inr 3" "puck_goal_id example_scene = Inr 4"
  by (simp_all add: endeff_id_def puck_id_def hand_goal_id_def puck_goal_id_def body_id_def
      example_scene_def)

lemma quat_to_theta_identity: "quat_to_theta 0 0 0 1 = Inr 0"
  using no_gimbal_lock_at_zero
  by (simp add: quat_to_theta_def from_quat_def as_euler_zyx_first_def arctan2_def)

lemma example_accessors:
  "get_endeff_pos example_scene (example_data d) = Inr (0, 6 / 10, 6 / 100)"
  "get_hand_goal_pos example_scene (example_data d) = Inr (d, 6 / 10, 6 / 100)"
  "get_puck_xytheta example_scene (example_data d) = Inr (0, 6 / 10, 0)"
  "get_puck_goal_xytheta example_scene (example_data d) = Inr (0, 6 / 10, 0)"
  by (simp_all add: get_endeff_pos_def get_hand_goal_pos_def get_puck_xytheta_def
      get_puck_goal_xytheta_def example_ids example_data_def quat_to_theta_identity)

lemma example_mocap_set_action:
  "mocap_set_action easy_config [0, 0, 0] (example_data d) = Inr (example_data d)"
  by (simp add: mocap_set_action_def np_add_def broadcast2_def list3_def np_clip3
      easy_config_def base_config_def example_data_def clip_def to_vec3_def
      set_mocap_pos_def set_mocap_quat_def)

lemma example_obs:
  "get_obs example_scene (example_env d) =
     Inr [''observation'' \<mapsto> [0, 6 / 10, 0, 6 / 10, 0],
          ''state_observation'' \<mapsto> [0, 6 / 10, 0, 6 / 10, 0],
          ''desired_goal'' \<mapsto> [0, 6 / 10, 0, 6 / 10, 0],
          ''state_desired_goal'' \<mapsto> [0, 6 / 10, 0, 6 / 10, 0],
          ''achieved_goal'' \<mapsto> [0, 6 / 10, 0, 6 / 10, 0],
          ''state_achieved_goal'' \<mapsto> [0, 6 / 10, 0, 6 / 10, 0]]"
  by (simp add: get_obs_def example_env_def example_accessors list3_def Let_def)

lemma example_diagnostics:
  "0 \<le> d \<Longrightarrow> diagnostics example_scene (example_data d) =
     Inr \<lparr>hand_distance = d, puck_distance = 0, puck_xy_distance = 0,
          puck_theta_distance = 0, touch_distance = 6 / 100,
          success = (if d < 6 / 100 then 1 else 0)\<rparr>"
  by (simp add: diagnostics_def example_accessors norm3_eq sub3_def list3_def linalg_norm_def
      dot_def)

lemma example_step:
  assumes "0 \<le> d"
  shows "\<exists>ob. step easy_config example_scene [0, 0] (example_env d) =
     Inr (example_env d, ob, 0, False,
          \<lparr>hand_distance = d, puck_distance = 0, puck_xy_distance = 0,
           puck_theta_distance = 0, touch_distance = 6 / 100,
           success = (if d < 6 / 100 then 1 else 0)\<rparr>)"
proof -
  have cmd: "map (\<lambda>x. x * pos_action_scale easy_config)
               (take 3 (new_mocap_action [0, 0] (example_data d))) = [0, 0, 0]"
    by (simp add: new_mocap_action_def mocap_delta_z_def example_data_def clip_def)
  have fp: "force_puck easy_config example_scene (example_data d) = Inr (example_data d)"
    by (simp add: force_puck_def easy_config_def base_config_def)
  have sim: "do_simulation example_scene u n (example_data d) = example_data d" for u n
    by (simp add: do_simulation_def example_scene_def)
  have e: "example_env d\<lparr>data := example_data d\<rparr> = example_env d"
    by (simp add: example_env_def)
  have dt: "data (example_env d) = example_data d" by (simp add: example_env_def)
  show ?thesis
    unfolding step_def Let_def dt cmd
    by (simp add: example_mocap_set_action fp sim e example_obs compute_reward_same dt
        example_diagnostics [OF assms])
qed

lemma example_step_mocap:
  "\<exists>ob dinfo.
     step (easy_config\<lparr>pos_action_scale := sc\<rparr>) example_scene [0, 0]
       ((example_env 0)\<lparr>data := (example_data 0)\<lparr>mocap_pos := (0, 6 / 10, z)\<rparr>\<rparr>) =
     Inr ((example_env 0)\<lparr>data := (example_data 0)
             \<lparr>mocap_pos := (0, 6 / 10, clip (z + (6 / 100 - z) * sc) 0 (5 / 10)),
              mocap_quat := (1, 0, 1, 0)\<rparr>\<rparr>,
          ob, 0, False, dinfo)"
proof -
  let ?cfg = "easy_config\<lparr>pos_action_scale := sc\<rparr>"
  let ?s0 = "(example_data 0)\<lparr>mocap_pos := (0, 6 / 10, z)\<rparr>"
  let ?e0 = "(example_env 0)\<lparr>data := ?s0\<rparr>"
  let ?s1 = "(example_data 0)\<lparr>mocap_pos := (0, 6 / 10, clip (z + (6 / 100 - z) * sc) 0 (5 / 10)),
               mocap_quat := (1, 0, 1, 0)\<rparr>"
  let ?e1 = "(example_env 0)\<lparr>data := ?s1\<rparr>"
  let ?x = "[0, 6 / 10, 0, 6 / 10, 0 :: real]"
  let ?ob = "[''observation'' \<mapsto> ?x, ''state_observation'' \<mapsto> ?x,
              ''desired_goal'' \<mapsto> ?x, ''state_desired_goal'' \<mapsto> ?x,
              ''achieved_goal'' \<mapsto> ?x, ''state_achieved_goal'' \<mapsto> ?x]"
  let ?di = "\<lparr>hand_distance = 0, puck_distance = 0, puck_xy_distance = 0,
              puck_theta_distance = 0, touch_distance = 6 / 100, success = 1 :: real\<rparr>"
  have dt: "data ?e0 = ?s0" by simp
  have cmd: "map (\<lambda>x. x * pos_action_scale ?cfg) (take 3 (new_mocap_action [0, 0] ?s0))
               = [0, 0, (6 / 100 - z) * sc]"
    by (simp add: new_mocap_action_def mocap_delta_z_def clip_def)
  have lo: "mocap_low ?cfg = [- 1 / 10, 5 / 10, 0]" and hi: "mocap_high ?cfg = [1 / 10, 7 / 10, 5 / 10]"
    by (simp_all add: easy_config_def base_config_def)
  have msa: "mocap_set_action ?cfg [0, 0, (6 / 100 - z) * sc] ?s0 = Inr ?s1"
    unfolding mocap_set_action_def lo hi
    by (simp add: np_add_def broadcast2_def list3_def np_clip3 to_vec3_def
        set_mocap_pos_def set_mocap_quat_def clip_def)
  have fp: "force_puck ?cfg example_scene ?s1 = Inr ?s1"
    by (simp add: force_puck_def easy_config_def base_config_def)
  have sim: "do_simulation example_scene u n ?s1 = ?s1" for u n
    by (simp add: do_simulation_def example_scene_def)
  have e: "?e0\<lparr>data := ?s1\<rparr> = ?e1" by simp
  have d1: "data ?e1 = ?s1" by simp
  have ob: "get_obs example_scene ?e1 = Inr ?ob"
  proof -
    have "get_obs example_scene ?e1 = get_obs example_scene (example_env 0)"
      by (rule get_obs_cong) (simp_all add: example_env_def)
    then show ?thesis by (simp add: example_obs)
  qed
  have di: "diagnostics example_scene ?s1 = Inr ?di"
  proof -
    have "diagnostics example_scene ?s1 = diagnostics example_scene (example_data 0)"
      by (rule accessors_cong(5)) simp_all
    then show ?thesis using example_diagnostics [of 0] by simp
  qed
  have "step ?cfg example_scene [0, 0] ?e0 = Inr (?e1, ?ob, 0, False, ?di)"
    unfolding step_def Let_def dt cmd msa then_do_Inr fp sim e ob d1 di
    by (simp only: compute_reward_same then_do_Inr)
  then show ?thesis by blast
qed

lemma set_goal_xyxytheta_runs:
  assumes "4 \<le> length g" and "28 \<le> length (qpos (data e))" and "24 \<le> length (qvel (data e))"
  shows "\<exists>q v. set_goal_xyxytheta mj g e =
                  Inr (e\<lparr>goal_xyxytheta := g, data := set_state mj q v (data e)\<rparr>) \<and>
               length q = length (qpos (data e)) \<and> length v = length (qvel (data e))"
proof -
  let ?qp = "qpos (data e)" and ?qv = "qvel (data e)"
  have g: "g \<noteq> []" "length (take 2 g @ [1 / 50]) = 17 - 14"
    "length (take 2 (drop 2 g) @ [1 / 50]) = 24 - 21"
    using assms(1) by auto
  define q1 where "q1 = take 14 ?qp @ (take 2 g @ [1 / 50]) @ drop 17 ?qp"
  define v1 where "v1 = take 14 ?qv @ [0, 0, 0] @ drop 17 ?qv"
  define q2 where "q2 = take 21 q1 @ (take 2 (drop 2 g) @ [1 / 50]) @ drop 24 q1"
  define v2 where "v2 = take 21 v1 @ [0, 0, 0] @ drop 24 v1"
  define q3 where "q3 = take 24 q2 @ [cos (last g / 2), 0, 0, sin (last g / 2)] @ drop 28 q2"
  have l1: "length q1 = length ?qp" using assms(1,2) by (simp add: q1_def)
  have lv1: "length v1 = length ?qv" using assms(3) by (simp add: v1_def)
  have l2: "length q2 = length ?qp" using assms(1,2) l1 by (simp add: q2_def)
  have lv2: "length v2 = length ?qv" using assms(3) lv1 by (simp add: v2_def)
  have l3: "length q3 = length ?qp" using assms(2) l2 by (simp add: q3_def)
  have a1: "assign_slice ?qp 14 17 (take 2 g @ [1 / 50]) = Inr q1"
    unfolding q1_def using assms(2) g(2) by (intro assign_slice_in_range) simp_all
  have b1: "assign_slice ?qv 14 17 [0, 0, 0] = Inr v1"
    unfolding v1_def using assms(3) by (intro assign_slice_in_range) simp_all
  have a2: "assign_slice q1 21 24 (take 2 (drop 2 g) @ [1 / 50]) = Inr q2"
    unfolding q2_def using assms(2) g(3) l1 by (intro assign_slice_in_range) simp_all
  have b2: "assign_slice v1 21 24 [0, 0, 0] = Inr v2"
    unfolding v2_def using assms(3) lv1 by (intro assign_slice_in_range) simp_all
  have a3: "assign_slice q2 24 28 [cos (last g / 2), 0, 0, sin (last g / 2)] = Inr q3"
    unfolding q3_def using assms(2) l2 by (intro assign_slice_in_range) simp_all
  have "set_goal_xyxytheta mj g e =
          Inr (e\<lparr>goal_xyxytheta := g, data := set_state mj q3 v2 (data e)\<rparr>)"
    unfolding set_goal_xyxytheta_def Let_def theta_to_quat_eq
    by (simp add: last_elem_def g(1) a1 b1 a2 b2 a3)
  with l3 lv2 show ?thesis by blast
qed

lemma set_puck_xytheta_runs:
  assumes "14 \<le> length (qpos s)" and "14 \<le> length (qvel s)"
  shows "\<exists>q v. set_puck_xytheta mj [x, y, theta] s = Inr (set_state mj q v s)"
proof -
  define q1 where "q1 = take 7 (qpos s) @ [x, y, 1 / 50] @ drop 10 (qpos s)"
  define v1 where "v1 = take 7 (qvel s) @ [0, 0, 0] @ drop 10 (qvel s)"
  define q2 where "q2 = take 10 q1 @ [cos (theta / 2), 0, 0, sin (theta / 2)] @ drop 14 q1"
  define v2 where "v2 = take 10 v1 @ [0, 0, 0, 0] @ drop 14 v1"
  have l1: "length q1 = length (qpos s)" using assms(1) by (simp add: q1_def)
  have lv1: "length v1 = length (qvel s)" using assms(2) by (simp add: v1_def)
  have a1: "assign_slice (qpos s) 7 10 [x, y, 1 / 50] = Inr q1"
    unfolding q1_def using assms(1) by (intro assign_slice_in_range) simp_all
  have b1: "assign_slice (qvel s) 7 10 [0, 0, 0] = Inr v1"
    unfolding v1_def using assms(2) by (intro assign_slice_in_range) simp_all
  have a2: "assign_slice q1 10 14 [cos (theta / 2), 0, 0, sin (theta / 2)] = Inr q2"
    unfolding q2_def using assms(1) l1 by (intro assign_slice_in_range) simp_all
  have b2: "assign_slice v1 10 14 [0, 0, 0, 0] = Inr v2"
    unfolding v2_def using assms(2) lv1 by (intro assign_slice_in_range) simp_all
  have "set_puck_xytheta mj [x, y, theta] s = Inr (set_state mj q2 v2 s)"
    unfolding set_puck_xytheta_def theta_to_quat_eq by (simp add: a1 b1 a2 b2)
  then show ?thesis by blast
qed

lemma quat_to_theta_runs:
  assumes "x * x + y * y + z * z + w * w \<noteq> 0"
  shows "\<exists>t. quat_to_theta x y z w = Inr t"
proof -
  have "0 \<le> x * x + y * y + z * z + w * w" by simp
  with assms have "sqrt (x * x + y * y + z * z + w * w) \<noteq> 0" by simp
  then show ?thesis by (simp add: quat_to_theta_def from_quat_def Let_def)
qed

lemma get_obs_runs:
  assumes "endeff_id mj = Inr j" and "puck_id mj = Inr i"
    and "case body_xquat (data e) i of (w, x, y, z) \<Rightarrow> x * x + y * y + z * z + w * w \<noteq> 0"
  shows "\<exists>ob. get_obs mj e = Inr ob"
proof -
  obtain w x y z where q: "body_xquat (data e) i = (w, x, y, z)"
    by (cases "body_xquat (data e) i")
  obtain px py pz where p: "body_xpos (data e) i = (px, py, pz)"
    by (cases "body_xpos (data e) i")
  from assms(3) q obtain t where "quat_to_theta x y z w = Inr t"
    using quat_to_theta_runs [of x y z w] by auto
  then show ?thesis
    by (simp add: get_obs_def get_endeff_pos_def get_puck_xytheta_def assms(1,2) p q Let_def)
qed

lemma reset_runs:
  assumes "cls cfg = SawyerPushAndReachTXYEasyEnv"
    and "sample_goal_xyxytheta cfg r = Inr (g, r1)" and "4 \<le> length g"
    and "24 \<le> length (qvel (data e))"
    and "endeff_id mj = Inr j" and "puck_id mj = Inr i"
    and "\<forall>s. case snd (kinematics mj s) i of (w, x, y, z) \<Rightarrow> x * x + y * y + z * z + w * w \<noteq> 0"
  shows "\<exists>e' r' ob. reset cfg mj e r = Inr (e', r', ob)"
proof -
  let ?s2 = "((\<lambda>s. set_mocap_quat (1, 0, 1, 0) (set_mocap_pos INIT_HAND_POS s)) ^^ 10)
               (reset_joints mj (data e))"
  let ?e2 = "e\<lparr>data := ?s2, goal_xyxytheta := g\<rparr>"
  have q2: "length (qpos (data ?e2)) = 28"
    by (simp add: recenter_fields(3) init_angles_def)
  have v2: "length (qvel (data ?e2)) = length (qvel (data e))"
    by (simp add: recenter_fields(4))
  obtain q v where g3: "set_goal_xyxytheta mj g ?e2 =
        Inr (?e2\<lparr>goal_xyxytheta := g, data := set_state mj q v (data ?e2)\<rparr>)"
    and lq: "length q = 28" and lv: "length v = length (qvel (data e))"
    using set_goal_xyxytheta_runs [of g ?e2 mj] assms(3,4) q2 v2 by auto
  let ?e3 = "?e2\<lparr>goal_xyxytheta := g, data := set_state mj q v (data ?e2)\<rparr>"
  let ?p = "[0, 6 / 10, (r1 0 - 1 / 2) * pi]"
  have sp: "sample_puck_xytheta cfg r1 = Inr (?p, \<lambda>i. r1 (Suc i))"
    by (simp add: sample_puck_xytheta_def assms(1) random_sample_def)
  obtain q' v' where s4: "set_puck_xytheta mj ?p (data ?e3) = Inr (set_state mj q' v' (data ?e3))"
    using set_puck_xytheta_runs [of "data ?e3" mj 0 "6 / 10" "(r1 0 - 1 / 2) * pi"] lq lv assms(4)
    by auto
  let ?e5 = "?e3\<lparr>data := reset_mocap_welds mj (set_state mj q' v' (data ?e3))\<rparr>"
  have nz: "case body_xquat (forward mj s) i of (w, x, y, z) \<Rightarrow>
      x * x + y * y + z * z + w * w \<noteq> 0" for s
    using assms(7) by (simp add: forward_def)
  have "case body_xquat (data ?e5) i of (w, x, y, z) \<Rightarrow>
      x * x + y * y + z * z + w * w \<noteq> 0"
    unfolding reset_mocap_welds_def using nz by simp
  from get_obs_runs [OF assms(5,6) this] obtain ob where ob: "get_obs mj ?e5 = Inr ob" ..
  have "reset cfg mj e r = Inr (?e5, \<lambda>i. r1 (Suc i), ob)"
    unfolding reset_def Let_def sample_goal_for_rollout_def
    by (simp add: assms(2) g3 [simplified] sp [simplified] s4 [simplified] ob [simplified])
  then show ?thesis by blast
qed

subsection \<open>C1: the reward is the negated Euclidean distance\<close>

text \<open>
  C1. For an observation whose \<open>state_achieved_goal\<close> and \<open>state_desired_goal\<close> entries
  have the same length, \<open>compute_reward\<close> returns, for every action, minus the square
  root of the sum of the squared componentwise differences; the reward is at most 0 and
  is 0 exactly when the two vectors are equal.
\<close>

theorem compute_reward_neg_l2:
  assumes "ob ''state_achieved_goal'' = Some a"
    and "ob ''state_desired_goal'' = Some d"
    and "length a = length d"
  shows "\<exists>r. compute_reward action ob = Inr r \<and> compute_reward action' ob = Inr r \<and>
           r = - sqrt (\<Sum>i<length a. (a ! i - d ! i)\<^sup>2) \<and> r \<le> 0 \<and> (r = 0 \<longleftrightarrow> a = d)"
proof -
  let ?diff = "map2 (\<lambda>x y. x - y) a d"
  have cr: "compute_reward act ob = Inr (- linalg_norm ?diff)" for act
    using assms by (simp add: compute_reward_def lookup_def np_subtract_def broadcast2_def)
  have len: "length ?diff = length a" using assms(3) by simp
  have nth: "?diff ! i = a ! i - d ! i" if "i < length a" for i
    using that assms(3) by simp
  have "dot ?diff ?diff = (\<Sum>i<length ?diff. (?diff ! i)\<^sup>2)" by (rule dot_self_sum)
  also have "\<dots> = (\<Sum>i<length a. (a ! i - d ! i)\<^sup>2)"
    unfolding len by (rule sum.cong) (simp_all add: nth)
  finally have sq: "dot ?diff ?diff = (\<Sum>i<length a. (a ! i - d ! i)\<^sup>2)" .
  have zero: "linalg_norm ?diff = 0 \<longleftrightarrow> a = d"
    unfolding linalg_norm_def using map2_sub_zero [OF assms(3)] by (simp add: dot_self_zero)
  have nn: "0 \<le> linalg_norm ?diff"
    unfolding linalg_norm_def using dot_self_nonneg [of ?diff] by simp
  show ?thesis
    using cr sq zero nn by (simp add: linalg_norm_def)
qed


theorem compute_reward_neg_l2_witness:
  "[''state_achieved_goal'' \<mapsto> [3, 0 :: real], ''state_desired_goal'' \<mapsto> [0, 4]]
     ''state_achieved_goal'' = Some [3, 0] \<and>
   length [3, 0 :: real] = length [0, 4 :: real] \<and>
   compute_reward [1, 1]
     [''state_achieved_goal'' \<mapsto> [3, 0], ''state_desired_goal'' \<mapsto> [0, 4]] = Inr (- 5) \<and>
   compute_reward [- 1, 0]
     [''state_achieved_goal'' \<mapsto> [3, 0], ''state_desired_goal'' \<mapsto> [0, 4]] = Inr (- 5)"
proof -
  let ?ob = "[''state_achieved_goal'' \<mapsto> [3, 0 :: real], ''state_desired_goal'' \<mapsto> [0, 4 :: real]]"
  have a: "?ob ''state_achieved_goal'' = Some [3, 0]" by simp
  have d: "?ob ''state_desired_goal'' = Some [0, 4]" by simp
  have l: "length [3, 0 :: real] = length [0, 4 :: real]" by simp
  have s: "sqrt 25 = 5" by (rule real_sqrt_unique) simp_all
  have e: "(\<Sum>i<length [3, 0 :: real]. ([3, 0] ! i - [0, 4 :: real] ! i)\<^sup>2) = 25"
    by (simp add: lessThan_Suc numeral_2_eq_2)
  obtain r where r1: "compute_reward [1, 1] ?ob = Inr r"
    and r2: "compute_reward [- 1, 0] ?ob = Inr r"
    and rv: "r = - sqrt (\<Sum>i<length [3, 0 :: real]. ([3, 0] ! i - [0, 4 :: real] ! i)\<^sup>2)"
    using compute_reward_neg_l2 [OF a d l, of "[1, 1]" "[- 1, 0]"] by blast
  have "r = - 5" unfolding rv e s ..
  with r1 r2 a l show ?thesis by (simp only: simp_thms)
qed

subsection \<open>C2: the success flag\<close>

text \<open>
  C2. For every call of \<open>step\<close> that returns, the \<open>success\<close> entry of the diagnostics is 1
  (true) if and only if \<open>hand_distance + puck_distance < 0.06\<close>, and 0 otherwise, where
  \<open>hand_distance\<close> is the Euclidean distance between the position of the hand-goal marker
  and the end effector and \<open>puck_distance\<close> is the Euclidean distance between the pose
  \<open>(x, y, theta)\<close> of the puck-goal marker and that of the puck, all read from the state
  the call leaves. On the example scene the flag is 1 when the sum is 0.059 and 0 when
  it is 0.061.
\<close>

theorem step_success_iff:
  assumes "step cfg mj a e = Inr (e', ob, rew, d, dinfo)"
  shows "\<exists>hx hy hz ex ey ez gx gy gt px py pt.
           get_hand_goal_pos mj (data e') = Inr (hx, hy, hz) \<and>
           get_endeff_pos mj (data e') = Inr (ex, ey, ez) \<and>
           get_puck_goal_xytheta mj (data e') = Inr (gx, gy, gt) \<and>
           get_puck_xytheta mj (data e') = Inr (px, py, pt) \<and>
           hand_distance dinfo = sqrt ((hx - ex)\<^sup>2 + (hy - ey)\<^sup>2 + (hz - ez)\<^sup>2) \<and>
           puck_distance dinfo = sqrt ((gx - px)\<^sup>2 + (gy - py)\<^sup>2 + (gt - pt)\<^sup>2) \<and>
           (success dinfo = 1 \<longleftrightarrow> hand_distance dinfo + puck_distance dinfo < 6 / 100) \<and>
           (success dinfo = 0 \<longleftrightarrow> \<not> hand_distance dinfo + puck_distance dinfo < 6 / 100)"
proof -
  from step_parts [OF assms] have "diagnostics mj (data e') = Inr dinfo" by blast
  from diagnostics_result [OF this] obtain hg ee pg p where
    acc: "get_hand_goal_pos mj (data e') = Inr hg" "get_endeff_pos mj (data e') = Inr ee"
      "get_puck_goal_xytheta mj (data e') = Inr pg" "get_puck_xytheta mj (data e') = Inr p"
    and hd: "hand_distance dinfo = norm3 (sub3 hg ee)"
    and pd: "puck_distance dinfo = norm3 (sub3 pg p)"
    and su: "success dinfo = (if hand_distance dinfo + puck_distance dinfo < 6 / 100 then 1 else 0)"
    by blast
  obtain hx hy hz where hg: "hg = (hx, hy, hz)" by (cases hg)
  obtain ex ey ez where ee: "ee = (ex, ey, ez)" by (cases ee)
  obtain gx gy gt where pg: "pg = (gx, gy, gt)" by (cases pg)
  obtain px py pt where p: "p = (px, py, pt)" by (cases p)
  have "hand_distance dinfo = sqrt ((hx - ex)\<^sup>2 + (hy - ey)\<^sup>2 + (hz - ez)\<^sup>2)"
    by (simp add: hd hg ee sub3_def norm3_eq)
  moreover have "puck_distance dinfo = sqrt ((gx - px)\<^sup>2 + (gy - py)\<^sup>2 + (gt - pt)\<^sup>2)"
    by (simp add: pd pg p sub3_def norm3_eq)
  moreover have "success dinfo = 1 \<longleftrightarrow> hand_distance dinfo + puck_distance dinfo < 6 / 100"
    by (simp add: su)
  moreover have "success dinfo = 0 \<longleftrightarrow> \<not> hand_distance dinfo + puck_distance dinfo < 6 / 100"
    by (simp add: su)
  ultimately show ?thesis using acc unfolding hg ee pg p by blast
qed

theorem step_success_iff_witness:
  "(\<exists>e' ob rew dinfo.
      step easy_config example_scene [0, 0] (example_env (59 / 1000)) = Inr (e', ob, rew, False, dinfo) \<and>
      hand_distance dinfo + puck_distance dinfo = 59 / 1000 \<and> success dinfo = 1) \<and>
   (\<exists>e' ob rew dinfo.
      step easy_config example_scene [0, 0] (example_env (61 / 1000)) = Inr (e', ob, rew, False, dinfo) \<and>
      hand_distance dinfo + puck_distance dinfo = 61 / 1000 \<and> success dinfo = 0)"
proof -
  let ?i1 = "\<lparr>hand_distance = 59 / 1000, puck_distance = 0, puck_xy_distance = 0,
              puck_theta_distance = 0, touch_distance = 6 / 100, success = 1\<rparr>"
  let ?i2 = "\<lparr>hand_distance = 61 / 1000, puck_distance = 0, puck_xy_distance = 0,
              puck_theta_distance = 0, touch_distance = 6 / 100, success = 0\<rparr>"
  obtain ob1 where r1: "step easy_config example_scene [0, 0] (example_env (59 / 1000)) =
      Inr (example_env (59 / 1000), ob1, 0, False, ?i1)"
    using example_step [of "59 / 1000"] by auto
  obtain ob2 where r2: "step easy_config example_scene [0, 0] (example_env (61 / 1000)) =
      Inr (example_env (61 / 1000), ob2, 0, False, ?i2)"
    using example_step [of "61 / 1000"] by auto
  have s1: "success ?i1 = 1 \<longleftrightarrow> hand_distance ?i1 + puck_distance ?i1 < 6 / 100"
    using step_success_iff [OF r1] by blast
  have s2: "success ?i2 = 0 \<longleftrightarrow> \<not> hand_distance ?i2 + puck_distance ?i2 < 6 / 100"
    using step_success_iff [OF r2] by blast
  have "hand_distance ?i1 + puck_distance ?i1 = 59 / 1000 \<and> success ?i1 = 1"
    using s1 by simp
  moreover have "hand_distance ?i2 + puck_distance ?i2 = 61 / 1000 \<and> success ?i2 = 0"
    using s2 by simp
  ultimately show ?thesis using r1 r2 by blast
qed

subsection \<open>C3: angle to quaternion and back\<close>

text \<open>
  C3. For every real angle \<open>theta\<close>, \<open>quat_to_theta\<close> applied to the quaternion of
  \<open>theta_to_quat theta\<close> returns an angle \<open>r\<close> with \<open>r = theta + 2 * pi * k\<close> for an
  integer \<open>k\<close>, so it is equal to \<open>theta\<close> modulo \<open>2 * pi\<close> (on the reals exactly, hence
  within the tolerance 1e-6), although the forward conversion composes in the order zxy and
  the inverse decomposes in the order zyx. The returned angle lies in \<open>(- pi, pi]\<close>.
\<close>

theorem quat_roundtrip:
  "\<exists>r (k::int).
     (case theta_to_quat theta of (w, x, y, z) \<Rightarrow> quat_to_theta x y z w) = Inr r \<and>
     r = theta + 2 * pi * of_int k \<and>
     \<bar>r - (theta + 2 * pi * of_int k)\<bar> \<le> 1 / 10 ^ 6 \<and>
     - pi < r \<and> r \<le> pi"
proof -
  let ?r = "arctan2 (sin theta) (cos theta)"
  have run: "(case theta_to_quat theta of (w, x, y, z) \<Rightarrow> quat_to_theta x y z w) = Inr ?r"
    by (simp add: theta_to_quat_eq quat_to_theta_z)
  have "sin ?r = sin theta \<and> cos ?r = cos theta" by (rule arctan2_sin_cos)
  then obtain k :: int where k: "?r = theta + 2 * pi * of_int k"
    unfolding sin_cos_eq_iff by blast
  have rng: "- pi < ?r \<and> ?r \<le> pi" by (rule arctan2_range)
  have tol: "\<bar>?r - (theta + 2 * pi * of_int k)\<bar> \<le> 1 / 10 ^ 6" using k by simp
  from run k tol rng show ?thesis by blast
qed

theorem quat_roundtrip_witness:
  "(case theta_to_quat 0 of (w, x, y, z) \<Rightarrow> quat_to_theta x y z w) = Inr 0"
proof -
  obtain r and k :: int where
    run: "(case theta_to_quat 0 of (w, x, y, z) \<Rightarrow> quat_to_theta x y z w) = Inr r"
    and k: "r = 0 + 2 * pi * of_int k" and lo: "- pi < r" and hi: "r \<le> pi"
    using quat_roundtrip [of 0] by blast
  have p: "0 < pi" by simp
  have up: "(of_int k :: real) < 1"
  proof (rule ccontr)
    assume "\<not> (of_int k :: real) < 1"
    then have "1 \<le> (of_int k :: real)" by simp
    then have "pi * 1 \<le> pi * of_int k" using p by (intro mult_left_mono) simp_all
    with hi k p show False by simp
  qed
  have dn: "- 1 < (of_int k :: real)"
  proof (rule ccontr)
    assume "\<not> - 1 < (of_int k :: real)"
    then have "(of_int k :: real) \<le> - 1" by simp
    then have "pi * of_int k \<le> pi * (- 1)" using p by (intro mult_left_mono) simp_all
    with lo k p show False by simp
  qed
  from up dn have "k = 0" by linarith
  with k run show ?thesis by simp
qed

subsection \<open>C4: reset keeps the joint velocities\<close>

text \<open>
  C4 as stated fails: \<open>reset\<close> reads the current velocities and passes them back
  to \<open>set_state\<close>. From a state whose 25 velocities are all 1, the velocities right after
  that call are all 1, and once \<open>reset\<close> has returned the first joint's velocity is still
  1.
\<close>

theorem reset_velocities_counterexample:
  "qvel (example_data 0) = replicate 25 1 \<and>
   qvel (reset_joints example_scene (example_data 0)) = replicate 25 1 \<and>
   qvel (reset_joints example_scene (example_data 0)) \<noteq> replicate 25 0 \<and>
   map_sum id (\<lambda>(e', r', ob). qvel (data e') ! 0)
     (reset easy_config example_scene (example_env 0) (\<lambda>i. 1 / 2)) = Inr 1"
proof -
  have v: "qvel (example_data 0) = replicate 25 1" by (simp add: example_data_def)
  have ne: "replicate 25 (1::real) \<noteq> replicate 25 0"
    by (simp add: replicate_eq_replicate)
  have c: "cls easy_config = SawyerPushAndReachTXYEasyEnv" by (simp add: easy_config_def)
  have sg: "sample_goal_xyxytheta easy_config (\<lambda>i. 1 / 2) = Inr ([0, 6 / 10, 0, 6 / 10], \<lambda>i. 1 / 2)"
    by (simp add: sample_goal_xyxytheta_def easy_config_def base_config_def
        np_uniform_same_length)
  have lv: "24 \<le> length (qvel (data (example_env 0)))"
    by (simp add: example_env_def example_data_def)
  have k: "\<forall>s. case snd (kinematics example_scene s) 2 of
             (w, x, y, z) \<Rightarrow> x * x + y * y + z * z + w * w \<noteq> 0"
    by (simp add: example_scene_def)
  obtain e' r' ob where
    run: "reset easy_config example_scene (example_env 0) (\<lambda>i. 1 / 2) = Inr (e', r', ob)"
    using reset_runs [OF c sg _ lv example_ids(1) example_ids(2) k] by auto
  have l0: "0 < length (qvel (data (example_env 0)))"
    by (simp add: example_env_def example_data_def)
  obtain g r1 where
    fr: "\<forall>k. k < length (qvel (data (example_env 0))) \<and> (k < 7 \<or> 17 \<le> k \<and> k < 21 \<or> 24 \<le> k)
            \<longrightarrow> qvel (data e') ! k = qvel (data (example_env 0)) ! k"
    using reset_result [OF run] by blast
  have "qvel (data e') ! 0 = qvel (data (example_env 0)) ! 0"
    using fr l0 by (elim allE [of _ 0]) simp
  then have "qvel (data e') ! 0 = 1" by (simp add: example_env_def example_data_def)
  with run v ne show ?thesis by simp
qed

text \<open>
  C4, amended. Every call of \<open>reset\<close> restores the fixed 28-element joint-angle
  configuration \<open>init_angles\<close> and hands the simulator's current joint velocities back
  unchanged: immediately after the \<open>set_state\<close> call inside \<open>reset\<close> the joint positions
  are \<open>init_angles\<close> and every joint velocity is what it was before \<open>reset\<close> was called.
  When \<open>reset\<close> has returned, the velocity slots that the goal and puck mutators do not
  address (0 to 6, 17 to 20, and 24 onwards) still hold their old values.
\<close>

theorem reset_keeps_velocities:
  "qpos (reset_joints mj s) = init_angles \<and> length init_angles = 28 \<and>
   qvel (reset_joints mj s) = qvel s \<and>
   (\<forall>e' r' ob k. reset cfg mj e r = Inr (e', r', ob) \<and> k < length (qvel (data e)) \<and>
        (k < 7 \<or> 17 \<le> k \<and> k < 21 \<or> 24 \<le> k)
      \<longrightarrow> qvel (data e') ! k = qvel (data e) ! k)"
proof -
  have "qvel (data e') ! k = qvel (data e) ! k"
    if "reset cfg mj e r = Inr (e', r', ob)" "k < length (qvel (data e))"
      "k < 7 \<or> 17 \<le> k \<and> k < 21 \<or> 24 \<le> k" for e' r' ob k
  proof -
    from reset_result [OF that(1)] have
      "\<forall>k. k < length (qvel (data e)) \<and> (k < 7 \<or> 17 \<le> k \<and> k < 21 \<or> 24 \<le> k)
          \<longrightarrow> qvel (data e') ! k = qvel (data e) ! k"
      by blast
    with that(2,3) show ?thesis by blast
  qed
  then have fr: "\<forall>e' r' ob k. reset cfg mj e r = Inr (e', r', ob) \<and> k < length (qvel (data e)) \<and>
        (k < 7 \<or> 17 \<le> k \<and> k < 21 \<or> 24 \<le> k)
      \<longrightarrow> qvel (data e') ! k = qvel (data e) ! k"
    by blast
  have a: "length init_angles = 28" by (simp add: init_angles_def)
  have b: "qpos (reset_joints mj s) = init_angles" "qvel (reset_joints mj s) = qvel s"
    by simp_all
  from a b fr show ?thesis by (simp only: simp_thms)
qed

theorem reset_keeps_velocities_witness:
  "qpos (reset_joints example_scene ((example_data 0)\<lparr>qvel := [3, 4]\<rparr>)) = init_angles \<and>
   qvel (reset_joints example_scene ((example_data 0)\<lparr>qvel := [3, 4]\<rparr>)) = [3, 4] \<and>
   (\<exists>e' r' ob. reset easy_config example_scene (example_env 0) (\<lambda>i. 1 / 2) = Inr (e', r', ob) \<and>
      qvel (data e') ! 24 = 1)"
proof -
  have c: "cls easy_config = SawyerPushAndReachTXYEasyEnv" by (simp add: easy_config_def)
  have sg: "sample_goal_xyxytheta easy_config (\<lambda>i. 1 / 2) = Inr ([0, 6 / 10, 0, 6 / 10], \<lambda>i. 1 / 2)"
    by (simp add: sample_goal_xyxytheta_def easy_config_def base_config_def
        np_uniform_same_length)
  have lv: "24 \<le> length (qvel (data (example_env 0)))"
    by (simp add: example_env_def example_data_def)
  have k: "\<forall>s. case snd (kinematics example_scene s) 2 of
             (w, x, y, z) \<Rightarrow> x * x + y * y + z * z + w * w \<noteq> 0"
    by (simp add: example_scene_def)
  obtain e' r' ob where
    run: "reset easy_config example_scene (example_env 0) (\<lambda>i. 1 / 2) = Inr (e', r', ob)"
    using reset_runs [OF c sg _ lv example_ids(1) example_ids(2) k] by auto
  note t = reset_keeps_velocities [of example_scene "(example_data 0)\<lparr>qvel := [3, 4]\<rparr>"
      easy_config "example_env 0" "\<lambda>i. 1 / 2"]
  have l24: "24 < length (qvel (data (example_env 0)))"
    by (simp add: example_env_def example_data_def)
  have "qvel (data e') ! 24 = qvel (data (example_env 0)) ! 24"
    using t run l24 by blast
  then have "qvel (data e') ! 24 = 1" by (simp add: example_env_def example_data_def)
  moreover have "qvel (reset_joints example_scene ((example_data 0)\<lparr>qvel := [3, 4]\<rparr>)) = [3, 4]"
    using t by simp
  moreover have "qpos (reset_joints example_scene ((example_data 0)\<lparr>qvel := [3, 4]\<rparr>)) = init_angles"
    by simp
  ultimately show ?thesis using run by blast
qed

subsection \<open>C5: the puck mutator also zeroes a velocity of the next body\<close>

text \<open>
  C5. \<open>set_puck_xytheta\<close> is to write the puck's degrees of freedom only. It does set
  the puck's position to \<open>(x, y, 0.02)\<close> and its quaternion to that of \<open>theta\<close>, and it
  zeroes the puck's six velocity entries, but the assignment \<^verbatim>\<open>qvel[10:14] = [0, 0, 0, 0]\<close>
  reaches one entry further than the puck's three angular velocities: on a state with 28
  joint positions and 25 joint velocities, all velocities 1, the call with the pose
  \<open>(0.1, 0.6, 0)\<close> also sets velocity entry 13, the first entry of the hand-goal marker,
  from 1 to 0. The other entries of the other bodies keep their values (here entry 6 of
  the arm and entry 14 of the hand-goal marker stay 1, and position entry 14 stays as it
  was).
\<close>

theorem set_puck_xytheta_zeroes_next_body:
  "length (qpos (example_data 0)) = 28 \<and> length (qvel (example_data 0)) = 25 \<and>
   qvel_body 13 = HandGoal \<and> qvel_body 12 = Puck \<and> qpos_body 13 = Puck \<and>
   qvel (example_data 0) ! 13 = 1 \<and>
   map_sum id (\<lambda>s'. qvel s' ! 13)
     (set_puck_xytheta example_scene [1 / 10, 6 / 10, 0] (example_data 0)) = Inr 0 \<and>
   map_sum id (\<lambda>s'. (take 7 (drop 7 (qpos s')), take 6 (drop 7 (qvel s'))))
     (set_puck_xytheta example_scene [1 / 10, 6 / 10, 0] (example_data 0))
     = Inr ([1 / 10, 6 / 10, 2 / 100, 1, 0, 0, 0], [0, 0, 0, 0, 0, 0]) \<and>
   map_sum id (\<lambda>s'. (qvel s' ! 6, qvel s' ! 14, qpos s' ! 14 = qpos (example_data 0) ! 14))
     (set_puck_xytheta example_scene [1 / 10, 6 / 10, 0] (example_data 0)) = Inr (1, 1, True)"
proof -
  have lq: "length (qpos (example_data 0)) = 28" by (simp add: example_data_def init_angles_def)
  have lv: "length (qvel (example_data 0)) = 25" by (simp add: example_data_def)
  have ex: "\<exists>s'. set_puck_xytheta example_scene [1 / 10, 6 / 10, 0] (example_data 0) = Inr s'"
    unfolding set_puck_xytheta_def theta_to_quat_eq
    by (simp add: assign_slice_def Let_def lq lv)
  then obtain s' where
    run: "set_puck_xytheta example_scene [1 / 10, 6 / 10, 0] (example_data 0) = Inr s'" ..
  note fr = set_puck_xytheta_slots [OF run]
  have v7: "take 7 (drop 7 (qvel s')) = [0, 0, 0, 0, 0, 0, 0]" using fr by simp
  have len: "length (qvel s') = 25" using fr lv by simp
  have "take 7 (drop 7 (qvel s')) ! 6 = qvel s' ! 13" using len by simp
  then have v13: "qvel s' ! 13 = 0" by (simp add: v7)
  have "take 6 (take 7 (drop 7 (qvel s'))) = [0, 0, 0, 0, 0, 0]" by (simp add: v7)
  then have v6: "take 6 (drop 7 (qvel s')) = [0, 0, 0, 0, 0, 0]" by simp
  have q3: "take 3 (drop 7 (qpos s')) = [1 / 10, 6 / 10, 2 / 100]" using fr by simp
  have q4: "take 4 (drop 10 (qpos s')) = [1, 0, 0, 0]" using fr by (simp add: theta_to_quat_eq)
  have "take 7 (drop 7 (qpos s')) = take 3 (drop 7 (qpos s')) @ take 4 (drop 10 (qpos s'))"
    using take_add [of 3 4 "drop 7 (qpos s')"] by simp
  then have q7: "take 7 (drop 7 (qpos s')) = [1 / 10, 6 / 10, 2 / 100, 1, 0, 0, 0]"
    by (simp add: q3 q4)
  have keep: "qvel s' ! 6 = 1" "qvel s' ! 14 = 1" "qpos s' ! 14 = qpos (example_data 0) ! 14"
    using fr by (simp_all add: example_data_def)
  have before: "qvel (example_data 0) ! 13 = 1" by (simp add: example_data_def)
  have owner: "qvel_body 13 = HandGoal" "qvel_body 12 = Puck" "qpos_body 13 = Puck"
    by (simp_all add: qvel_body_def qpos_body_def)
  from lq lv owner before v13 v6 q7 keep run show ?thesis by simp
qed

subsection \<open>C6: the base goal sampler draws the puck angle too\<close>

text \<open>
  C6 as stated fails: with the base class's default bounds, which have three
  components for the puck, the fifth component of the sampled goal (the puck angle)
  follows the fifth draw of the generator: it is \<open>- 0.2\<close> when the draws are 0 and \<open>0\<close>
  when they are 1/2.
\<close>

theorem sample_goal_angle_counterexample:
  "randomize_goals base_config \<and>
   map_sum id fst (sample_goal_xyxytheta base_config (\<lambda>i. 0)) =
     Inr [- 5 / 100, 55 / 100, - 5 / 100, 55 / 100, - 2 / 10] \<and>
   map_sum id fst (sample_goal_xyxytheta base_config (\<lambda>i. 1 / 2)) =
     Inr [0, 6 / 10, 0, 6 / 10, 0]"
  by (simp add: sample_goal_xyxytheta_def base_config_def np_uniform_same_length)

text \<open>
  C6, amended. When goal randomization is enabled and each pair of bounds has equal
  lengths, \<open>sample_goal_xyxytheta\<close> draws every component of the hand goal and of the
  puck goal, the puck angle included when the puck bounds have three components: the
  component for bound index \<open>i\<close> is \<open>low[i] + (high[i] - low[i]) * u\<close> for its own draw
  \<open>u\<close> of the generator (the hand components use the first draws, the puck components
  the next ones), so it lies between \<open>low[i]\<close> and \<open>high[i]\<close> when the draws are in
  \<open>[0, 1)\<close> and \<open>low[i] \<le> high[i]\<close>. (With the easy class's two-component puck bounds
  the sampled goal has four components and no angle.)
\<close>

theorem sample_goal_draws_every_component:
  assumes "randomize_goals cfg"
    and "length (hand_goal_low cfg) = nh" and "length (hand_goal_high cfg) = nh"
    and "length (puck_goal_low cfg) = np" and "length (puck_goal_high cfg) = np"
  shows "\<exists>g. sample_goal_xyxytheta cfg r = Inr (g, \<lambda>i. r (nh + np + i)) \<and>
           length g = nh + np \<and>
           (\<forall>i<nh. g ! i = hand_goal_low cfg ! i
                       + (hand_goal_high cfg ! i - hand_goal_low cfg ! i) * r i) \<and>
           (\<forall>j<np. g ! (nh + j) = puck_goal_low cfg ! j
                       + (puck_goal_high cfg ! j - puck_goal_low cfg ! j) * r (nh + j)) \<and>
           (\<forall>j<np. 0 \<le> r (nh + j) \<and> r (nh + j) < 1 \<and> puck_goal_low cfg ! j \<le> puck_goal_high cfg ! j
                 \<longrightarrow> puck_goal_low cfg ! j \<le> g ! (nh + j) \<and> g ! (nh + j) \<le> puck_goal_high cfg ! j) \<and>
           (\<forall>i<nh. 0 \<le> r i \<and> r i < 1 \<and> hand_goal_low cfg ! i \<le> hand_goal_high cfg ! i
                 \<longrightarrow> hand_goal_low cfg ! i \<le> g ! i \<and> g ! i \<le> hand_goal_high cfg ! i)"
proof -
  let ?hl = "hand_goal_low cfg" and ?hh = "hand_goal_high cfg"
  let ?pl = "puck_goal_low cfg" and ?ph = "puck_goal_high cfg"
  let ?hand = "map (\<lambda>i. ?hl ! i + (?hh ! i - ?hl ! i) * r i) [0..<nh]"
  let ?puck = "map (\<lambda>j. ?pl ! j + (?ph ! j - ?pl ! j) * r (nh + j)) [0..<np]"
  have h: "np_uniform ?hl ?hh r = Inr (?hand, \<lambda>i. r (nh + i))"
    using np_uniform_same_length [of ?hl ?hh r] assms(2,3) by simp
  have p: "np_uniform ?pl ?ph (\<lambda>i. r (nh + i)) = Inr (?puck, \<lambda>i. r (nh + (np + i)))"
    using np_uniform_same_length [of ?pl ?ph "\<lambda>i. r (nh + i)"] assms(4,5) by simp
  define g where "g = ?hand @ ?puck"
  have run: "sample_goal_xyxytheta cfg r = Inr (g, \<lambda>i. r (nh + np + i))"
    using assms(1) by (simp add: sample_goal_xyxytheta_def h p add.assoc g_def)
  have len: "length g = nh + np" by (simp add: g_def)
  have hi: "g ! i = ?hl ! i + (?hh ! i - ?hl ! i) * r i" if "i < nh" for i
    using that by (simp add: nth_append g_def)
  have pj: "g ! (nh + j) = ?pl ! j + (?ph ! j - ?pl ! j) * r (nh + j)" if "j < np" for j
    using that by (simp add: nth_append g_def)
  have between: "l \<le> l + (u - l) * t \<and> l + (u - l) * t \<le> u"
    if "0 \<le> t" "t < 1" "l \<le> u" for l u t :: real
  proof -
    have "0 \<le> (u - l) * t" using that by simp
    moreover have "(u - l) * t \<le> (u - l) * 1"
      using that by (intro mult_left_mono) simp_all
    ultimately show ?thesis by simp
  qed
  have c1: "\<forall>i<nh. g ! i = ?hl ! i + (?hh ! i - ?hl ! i) * r i"
    using hi by blast
  have c2: "\<forall>j<np. g ! (nh + j) = ?pl ! j + (?ph ! j - ?pl ! j) * r (nh + j)"
    using pj by blast
  have c3: "\<forall>j<np. 0 \<le> r (nh + j) \<and> r (nh + j) < 1 \<and> ?pl ! j \<le> ?ph ! j
              \<longrightarrow> ?pl ! j \<le> g ! (nh + j) \<and> g ! (nh + j) \<le> ?ph ! j"
  proof (intro allI impI)
    fix j assume "j < np" and "0 \<le> r (nh + j) \<and> r (nh + j) < 1 \<and> ?pl ! j \<le> ?ph ! j"
    then show "?pl ! j \<le> g ! (nh + j) \<and> g ! (nh + j) \<le> ?ph ! j"
      using between [of "r (nh + j)" "?pl ! j" "?ph ! j"] by (simp only: pj)
  qed
  have c4: "\<forall>i<nh. 0 \<le> r i \<and> r i < 1 \<and> ?hl ! i \<le> ?hh ! i
              \<longrightarrow> ?hl ! i \<le> g ! i \<and> g ! i \<le> ?hh ! i"
  proof (intro allI impI)
    fix i assume "i < nh" and "0 \<le> r i \<and> r i < 1 \<and> ?hl ! i \<le> ?hh ! i"
    then show "?hl ! i \<le> g ! i \<and> g ! i \<le> ?hh ! i"
      using between [of "r i" "?hl ! i" "?hh ! i"] by (simp only: hi)
  qed
  from run len c1 c2 c3 c4 show ?thesis by blast
qed

theorem sample_goal_draws_every_component_witness:
  "randomize_goals base_config \<and>
   length (puck_goal_low base_config) = 3 \<and> length (hand_goal_low base_config) = 2 \<and>
   (\<exists>g r'. sample_goal_xyxytheta base_config (\<lambda>i. 1 / 4) = Inr (g, r') \<and>
      length g = 5 \<and> g ! 4 = - 1 / 10 \<and> g ! 0 = - 1 / 40)"
proof -
  have a: "randomize_goals base_config" by (simp add: base_config_def)
  have l: "length (hand_goal_low base_config) = 2" "length (hand_goal_high base_config) = 2"
    "length (puck_goal_low base_config) = 3" "length (puck_goal_high base_config) = 3"
    by (simp_all add: base_config_def)
  obtain g where run: "sample_goal_xyxytheta base_config (\<lambda>i. 1 / 4) = Inr (g, \<lambda>i. 1 / 4)"
    and len: "length g = 2 + 3"
    and hand: "\<forall>i<2. g ! i = hand_goal_low base_config ! i
                 + (hand_goal_high base_config ! i - hand_goal_low base_config ! i) * (1 / 4)"
    and puck: "\<forall>j<3. g ! (2 + j) = puck_goal_low base_config ! j
                 + (puck_goal_high base_config ! j - puck_goal_low base_config ! j) * (1 / 4)"
    using sample_goal_draws_every_component [OF a l, of "\<lambda>i. 1 / 4"] by blast
  have "g ! (2 + 2) = puck_goal_low base_config ! 2
           + (puck_goal_high base_config ! 2 - puck_goal_low base_config ! 2) * (1 / 4)"
    using puck by (elim allE [of _ 2]) simp
  then have g4: "g ! 4 = - 1 / 10" by (simp add: base_config_def)
  have "g ! 0 = hand_goal_low base_config ! 0
           + (hand_goal_high base_config ! 0 - hand_goal_low base_config ! 0) * (1 / 4)"
    using hand by (elim allE [of _ 0]) simp
  then have g0: "g ! 0 = - 1 / 40" by (simp add: base_config_def)
  from a l run len g4 g0 show ?thesis by simp
qed

subsection \<open>C7: only mocap\_set\_action clips the actuator target\<close>

text \<open>
  C7 as stated fails: \<open>reset\<close> writes \<open>INIT_HAND_POS = (0, 0.4, 0.02)\<close> as the
  mocap target without clipping, and with the default box the second coordinate 0.4 lies
  below \<open>mocap_low[1] = 0.5\<close>; \<open>set_hand_xy\<close> writes the target it is given, here
  \<open>(1, 1, 0.02)\<close>, far outside the box.
\<close>

theorem mocap_unclipped_counterexample:
  "mocap_low easy_config = [- 1 / 10, 5 / 10, 0] \<and>
   mocap_high easy_config = [1 / 10, 7 / 10, 5 / 10] \<and>
   map_sum id (\<lambda>(e', r', ob). mocap_pos (data e'))
     (reset easy_config example_scene (example_env 0) (\<lambda>i. 1 / 2)) = Inr (0, 4 / 10, 2 / 100) \<and>
   (4 / 10 :: real) < 5 / 10 \<and>
   map_sum id mocap_pos (set_hand_xy easy_config example_scene [1, 1] (example_data 0))
     = Inr (1, 1, 2 / 100) \<and>
   (1 / 10 :: real) < 1"
proof -
  have c: "cls easy_config = SawyerPushAndReachTXYEasyEnv" by (simp add: easy_config_def)
  have sg: "sample_goal_xyxytheta easy_config (\<lambda>i. 1 / 2) = Inr ([0, 6 / 10, 0, 6 / 10], \<lambda>i. 1 / 2)"
    by (simp add: sample_goal_xyxytheta_def easy_config_def base_config_def
        np_uniform_same_length)
  have lv: "24 \<le> length (qvel (data (example_env 0)))"
    by (simp add: example_env_def example_data_def)
  have k: "\<forall>s. case snd (kinematics example_scene s) 2 of
             (w, x, y, z) \<Rightarrow> x * x + y * y + z * z + w * w \<noteq> 0"
    by (simp add: example_scene_def)
  obtain e' r' ob where
    run: "reset easy_config example_scene (example_env 0) (\<lambda>i. 1 / 2) = Inr (e', r', ob)"
    using reset_runs [OF c sg _ lv example_ids(1) example_ids(2) k] by auto
  have "mocap_pos (data e') = INIT_HAND_POS" using reset_result [OF run] by blast
  then have a: "map_sum id (\<lambda>(e', r', ob). mocap_pos (data e'))
      (reset easy_config example_scene (example_env 0) (\<lambda>i. 1 / 2)) = Inr (0, 4 / 10, 2 / 100)"
    by (simp add: run INIT_HAND_POS_def)
  obtain s' where
    h: "set_hand_xy easy_config example_scene [1, 1] (example_data 0) = Inr s'"
    by (simp add: set_hand_xy_def)
  have "mocap_pos s' = ([1, 1] ! 0, [1, 1] ! 1, 2 / 100)"
    by (rule set_hand_xy_mocap [OF h]) (simp add: example_scene_def)
  then have b: "map_sum id mocap_pos (set_hand_xy easy_config example_scene [1, 1] (example_data 0))
      = Inr (1, 1, 2 / 100)"
    by (simp add: h)
  have lo: "mocap_low easy_config = [- 1 / 10, 5 / 10, 0]"
    and hi: "mocap_high easy_config = [1 / 10, 7 / 10, 5 / 10]"
    by (simp_all add: easy_config_def base_config_def)
  from a b lo hi show ?thesis by simp
qed

text \<open>
  C7, amended. The mocap target is clipped by \<open>mocap_set_action\<close>, and so on the path of
  \<open>step\<close>: whenever \<open>mocap_set_action\<close> returns, with three-component bounds and
  \<open>mocap_low \<le> mocap_high\<close> componentwise, the position it writes lies inside the box
  \<open>[mocap_low, mocap_high]\<close> whatever the requested delta, and \<open>step\<close> hands that
  clipped target to the simulator. \<open>reset\<close> writes \<open>INIT_HAND_POS\<close> and \<open>set_hand_xy\<close>
  writes \<open>(x, y, 0.02)\<close> as they are, without clipping (the latter read back after an
  engine that leaves the mocap target alone).
\<close>

theorem mocap_set_action_in_box:
  "(mocap_set_action cfg action s = Inr s' \<and>
      mocap_low cfg = [lx, ly, lz] \<and> mocap_high cfg = [hx, hy, hz] \<and>
      lx \<le> hx \<and> ly \<le> hy \<and> lz \<le> hz
    \<longrightarrow> (case mocap_pos s' of (px, py, pz) \<Rightarrow>
           lx \<le> px \<and> px \<le> hx \<and> ly \<le> py \<and> py \<le> hy \<and> lz \<le> pz \<and> pz \<le> hz)) \<and>
   (step cfg mj a e = Inr (e', ob, rew, d, dinfo)
    \<longrightarrow> (\<exists>s1 s2. mocap_set_action cfg
                    (map (\<lambda>x. x * pos_action_scale cfg) (take 3 (new_mocap_action a (data e))))
                    (data e) = Inr s1 \<and>
                  force_puck cfg mj s1 = Inr s2 \<and> mocap_pos s2 = mocap_pos s1 \<and>
                  data e' = do_simulation mj (replicate 7 0) (frame_skip cfg) s2)) \<and>
   (reset cfg mj e0 r = Inr (e0', r', ob0) \<longrightarrow> mocap_pos (data e0') = INIT_HAND_POS) \<and>
   (set_hand_xy cfg mj xy t = Inr t' \<and> (\<forall>u n t. mocap_pos (simulate mj u n t) = mocap_pos t)
    \<longrightarrow> mocap_pos t' = (xy ! 0, xy ! 1, 2 / 100))"
proof (intro conjI impI)
  assume h: "mocap_set_action cfg action s = Inr s' \<and>
      mocap_low cfg = [lx, ly, lz] \<and> mocap_high cfg = [hx, hy, hz] \<and>
      lx \<le> hx \<and> ly \<le> hy \<and> lz \<le> hz"
  obtain x y z where p: "mocap_pos s = (x, y, z)" by (cases "mocap_pos s")
  from h p obtain dx dy dz where
    "mocap_pos s' = (clip (x + dx) lx hx, clip (y + dy) ly hy, clip (z + dz) lz hz)"
    using mocap_set_action_3 [of cfg action s s' lx ly lz hx hy hz x y z] by blast
  then show "case mocap_pos s' of (px, py, pz) \<Rightarrow>
           lx \<le> px \<and> px \<le> hx \<and> ly \<le> py \<and> py \<le> hy \<and> lz \<le> pz \<and> pz \<le> hz"
    using h by (simp add: clip_in_range)
next
  assume h: "step cfg mj a e = Inr (e', ob, rew, d, dinfo)"
  from step_parts [OF h] obtain s1 s2 where
    a: "mocap_set_action cfg
          (map (\<lambda>x. x * pos_action_scale cfg) (take 3 (new_mocap_action a (data e))))
          (data e) = Inr s1"
    and b: "force_puck cfg mj s1 = Inr s2"
    and c: "e' = e\<lparr>data := do_simulation mj (replicate 7 0) (frame_skip cfg) s2\<rparr>"
    by blast
  from c have "data e' = do_simulation mj (replicate 7 0) (frame_skip cfg) s2" by simp
  with a b force_puck_mocap [OF b]
  show "\<exists>s1 s2. mocap_set_action cfg
                    (map (\<lambda>x. x * pos_action_scale cfg) (take 3 (new_mocap_action a (data e))))
                    (data e) = Inr s1 \<and>
                  force_puck cfg mj s1 = Inr s2 \<and> mocap_pos s2 = mocap_pos s1 \<and>
                  data e' = do_simulation mj (replicate 7 0) (frame_skip cfg) s2"
    by blast
next
  assume "reset cfg mj e0 r = Inr (e0', r', ob0)"
  from reset_result [OF this] show "mocap_pos (data e0') = INIT_HAND_POS" by blast
next
  assume "set_hand_xy cfg mj xy t = Inr t' \<and> (\<forall>u n t. mocap_pos (simulate mj u n t) = mocap_pos t)"
  then show "mocap_pos t' = (xy ! 0, xy ! 1, 2 / 100)"
    using set_hand_xy_mocap [of cfg mj xy t t'] by blast
qed

theorem mocap_set_action_in_box_witness:
  "\<exists>s'. mocap_set_action easy_config [3, - 3, 1] (example_data 0) = Inr s' \<and>
      mocap_pos s' = (1 / 10, 5 / 10, 5 / 10) \<and>
      mocap_low easy_config = [- 1 / 10, 5 / 10, 0] \<and>
      mocap_high easy_config = [1 / 10, 7 / 10, 5 / 10]"
proof -
  have lo: "mocap_low easy_config = [- 1 / 10, 5 / 10, 0]"
    and hi: "mocap_high easy_config = [1 / 10, 7 / 10, 5 / 10]"
    by (simp_all add: easy_config_def base_config_def)
  let ?s' = "(example_data 0)\<lparr>mocap_pos := (1 / 10, 5 / 10, 5 / 10), mocap_quat := (1, 0, 1, 0)\<rparr>"
  have run: "mocap_set_action easy_config [3, - 3, 1] (example_data 0) = Inr ?s'"
    unfolding mocap_set_action_def lo hi
    by (simp add: np_add_def broadcast2_def list3_def np_clip3 to_vec3_def
        set_mocap_pos_def set_mocap_quat_def clip_def example_data_def)
  have ord: "(- 1 / 10 :: real) \<le> 1 / 10 \<and> (5 / 10 :: real) \<le> 7 / 10 \<and> (0 :: real) \<le> 5 / 10"
    by simp
  have "case mocap_pos ?s' of (px, py, pz) \<Rightarrow>
          - 1 / 10 \<le> px \<and> px \<le> 1 / 10 \<and> 5 / 10 \<le> py \<and> py \<le> 7 / 10 \<and> 0 \<le> pz \<and> pz \<le> 5 / 10"
    by (rule mp [OF conjunct1 [OF mocap_set_action_in_box
            [of easy_config "[3, - 3, 1]" "example_data 0" ?s'
              "- 1 / 10" "5 / 10" 0 "1 / 10" "7 / 10" "5 / 10"]]])
      (simp only: run lo hi ord simp_thms)
  moreover have "mocap_pos ?s' = (1 / 10, 5 / 10, 5 / 10)" by simp
  ultimately show ?thesis using run lo hi by blast
qed

subsection \<open>C8: the vertical correction\<close>

text \<open>
  C8 as stated fails for some action scales: with \<open>pos_action_scale = 2\<close>, a mocap
  target at height 0 (correction 0.06) moves to height 0.12, inside the box, and the
  next correction is \<open>- 0.06\<close>: its magnitude has not shrunk.
\<close>

theorem vertical_correction_counterexample:
  "mocap_delta_z ((example_data 0)\<lparr>mocap_pos := (0, 6 / 10, 0)\<rparr>) = 6 / 100 \<and>
   map_sum id (\<lambda>(e', ob, rew, d, dinfo). (mocap_pos (data e'), mocap_delta_z (data e')))
     (step (easy_config\<lparr>pos_action_scale := 2\<rparr>) example_scene [0, 0]
        ((example_env 0)\<lparr>data := (example_data 0)\<lparr>mocap_pos := (0, 6 / 10, 0)\<rparr>\<rparr>))
     = Inr ((0, 6 / 10, 12 / 100), - 6 / 100) \<and>
   mocap_low (easy_config\<lparr>pos_action_scale := 2\<rparr>) = [- 1 / 10, 5 / 10, 0] \<and>
   mocap_high (easy_config\<lparr>pos_action_scale := 2\<rparr>) = [1 / 10, 7 / 10, 5 / 10] \<and>
   \<not> \<bar>- 6 / 100 :: real\<bar> < \<bar>6 / 100\<bar>"
proof -
  obtain ob dinfo where
    "step (easy_config\<lparr>pos_action_scale := 2\<rparr>) example_scene [0, 0]
       ((example_env 0)\<lparr>data := (example_data 0)\<lparr>mocap_pos := (0, 6 / 10, 0)\<rparr>\<rparr>) =
     Inr ((example_env 0)\<lparr>data := (example_data 0)
             \<lparr>mocap_pos := (0, 6 / 10, clip (0 + (6 / 100 - 0) * 2) 0 (5 / 10)),
              mocap_quat := (1, 0, 1, 0)\<rparr>\<rparr>,
          ob, 0, False, dinfo)"
    using example_step_mocap [of 2 0] by blast
  then show ?thesis
    by (simp add: mocap_delta_z_def clip_def easy_config_def base_config_def)
qed

text \<open>
  C8, amended. In every call of \<open>step\<close> with a two-component action, the third
  (vertical) component of the command \<open>new_mocap_action\<close> is 0.06 minus the current
  height of the mocap target. For a call of \<open>step\<close> with action \<open>(0, 0)\<close> that returns,
  when the engine leaves the mocap target alone, the new height stays inside the mocap
  box and \<open>0 < pos_action_scale < 2\<close> (the default is 0.02), the correction after the
  step is \<open>(1 - pos_action_scale)\<close> times the correction before it, so whenever it is
  nonzero its magnitude strictly shrinks.
\<close>

theorem vertical_correction_shrinks:
  "(length a = 2 \<longrightarrow>
      new_mocap_action a s =
        [clip (a ! 0) (- 1) 1, clip (a ! 1) (- 1) 1, 6 / 100 - snd (snd (mocap_pos s))]) \<and>
   (step cfg mj [0, 0] e = Inr (e', ob, rew, d, dinfo) \<and>
      (\<forall>u n t. mocap_pos (simulate mj u n t) = mocap_pos t) \<and>
      mocap_low cfg = [lx, ly, lz] \<and> mocap_high cfg = [hx, hy, hz] \<and>
      lz \<le> snd (snd (mocap_pos (data e))) + pos_action_scale cfg * mocap_delta_z (data e) \<and>
      snd (snd (mocap_pos (data e))) + pos_action_scale cfg * mocap_delta_z (data e) \<le> hz \<and>
      0 < pos_action_scale cfg \<and> pos_action_scale cfg < 2 \<and> mocap_delta_z (data e) \<noteq> 0
    \<longrightarrow> mocap_delta_z (data e) = 6 / 100 - snd (snd (mocap_pos (data e))) \<and>
         mocap_delta_z (data e') = (1 - pos_action_scale cfg) * mocap_delta_z (data e) \<and>
         \<bar>mocap_delta_z (data e')\<bar> < \<bar>mocap_delta_z (data e)\<bar>)"
proof (rule conjI; rule impI)
  assume "length a = 2"
  then obtain a0 a1 where "a = [a0, a1]"
    by (cases a; simp) (metis length_0_conv length_Suc_conv Suc_1 nat.inject)
  then show "new_mocap_action a s =
      [clip (a ! 0) (- 1) 1, clip (a ! 1) (- 1) 1, 6 / 100 - snd (snd (mocap_pos s))]"
    by (simp add: new_mocap_action_def mocap_delta_z_def split: prod.splits)
next
  assume h: "step cfg mj [0, 0] e = Inr (e', ob, rew, d, dinfo) \<and>
      (\<forall>u n t. mocap_pos (simulate mj u n t) = mocap_pos t) \<and>
      mocap_low cfg = [lx, ly, lz] \<and> mocap_high cfg = [hx, hy, hz] \<and>
      lz \<le> snd (snd (mocap_pos (data e))) + pos_action_scale cfg * mocap_delta_z (data e) \<and>
      snd (snd (mocap_pos (data e))) + pos_action_scale cfg * mocap_delta_z (data e) \<le> hz \<and>
      0 < pos_action_scale cfg \<and> pos_action_scale cfg < 2 \<and> mocap_delta_z (data e) \<noteq> 0"
  define sc where "sc = pos_action_scale cfg"
  obtain x y z where p: "mocap_pos (data e) = (x, y, z)" by (cases "mocap_pos (data e)")
  have dz: "mocap_delta_z (data e) = 6 / 100 - z" by (simp add: mocap_delta_z_def p)
  from h have run: "step cfg mj [0, 0] e = Inr (e', ob, rew, d, dinfo)" by blast
  from step_parts [OF run] obtain s1 s2 where
    a: "mocap_set_action cfg
          (map (\<lambda>x. x * pos_action_scale cfg) (take 3 (new_mocap_action [0, 0] (data e))))
          (data e) = Inr s1"
    and b: "force_puck cfg mj s1 = Inr s2"
    and c: "e' = e\<lparr>data := do_simulation mj (replicate 7 0) (frame_skip cfg) s2\<rparr>"
    by blast
  have cmd: "map (\<lambda>x. x * pos_action_scale cfg) (take 3 (new_mocap_action [0, 0] (data e)))
      = [0, 0, (6 / 100 - z) * sc]"
    by (simp add: new_mocap_action_def dz clip_def sc_def)
  from h have lo: "mocap_low cfg = [lx, ly, lz]" and hi: "mocap_high cfg = [hx, hy, hz]"
    by blast+
  from mocap_set_action_3 [OF a [unfolded cmd] lo hi p]
  have m1: "mocap_pos s1 = (clip (x + 0) lx hx, clip (y + 0) ly hy, clip (z + (6 / 100 - z) * sc) lz hz)"
    by auto
  from h have inside: "lz \<le> z + (6 / 100 - z) * sc" "z + (6 / 100 - z) * sc \<le> hz"
    by (simp_all add: p dz sc_def mult.commute)
  have ci: "clip (z + (6 / 100 - z) * sc) lz hz = z + (6 / 100 - z) * sc"
    by (rule clip_inside [OF inside])
  have z1: "snd (snd (mocap_pos s1)) = z + (6 / 100 - z) * sc"
    using ci by (simp add: m1)
  have m2: "mocap_pos s2 = mocap_pos s1" by (rule force_puck_mocap [OF b])
  from h have "mocap_pos (data e') = mocap_pos s2"
    by (simp add: c do_simulation_def)
  then have "snd (snd (mocap_pos (data e'))) = z + (6 / 100 - z) * sc"
    by (simp add: m2 z1)
  then have "mocap_delta_z (data e') = 6 / 100 - (z + (6 / 100 - z) * sc)"
    by (simp add: mocap_delta_z_eq)
  moreover have "c - (z + (c - z) * sc) = (1 - sc) * (c - z)" for c :: real
    by (simp add: algebra_simps)
  ultimately have eq: "mocap_delta_z (data e') = (1 - sc) * mocap_delta_z (data e)"
    by (simp only: dz)
  from h have s: "0 < sc" "sc < 2" and nz: "mocap_delta_z (data e) \<noteq> 0"
    by (simp_all add: sc_def)
  have "\<bar>1 - sc\<bar> < 1" using s by simp
  then have "\<bar>1 - sc\<bar> * \<bar>mocap_delta_z (data e)\<bar> < 1 * \<bar>mocap_delta_z (data e)\<bar>"
    using nz by (intro mult_strict_right_mono) simp_all
  then have lt: "\<bar>mocap_delta_z (data e')\<bar> < \<bar>mocap_delta_z (data e)\<bar>"
    by (simp add: eq abs_mult)
  show "mocap_delta_z (data e) = 6 / 100 - snd (snd (mocap_pos (data e))) \<and>
         mocap_delta_z (data e') = (1 - pos_action_scale cfg) * mocap_delta_z (data e) \<and>
         \<bar>mocap_delta_z (data e')\<bar> < \<bar>mocap_delta_z (data e)\<bar>"
    using eq lt dz p by (simp add: sc_def)
qed

theorem vertical_correction_shrinks_witness:
  "new_mocap_action [1 / 2, - 3] (example_data 0) = [1 / 2, - 1, 0] \<and>
   (\<exists>e' ob rew dinfo.
      step easy_config example_scene [0, 0]
        ((example_env 0)\<lparr>data := (example_data 0)\<lparr>mocap_pos := (0, 6 / 10, 0)\<rparr>\<rparr>)
        = Inr (e', ob, rew, False, dinfo) \<and>
      mocap_delta_z ((example_data 0)\<lparr>mocap_pos := (0, 6 / 10, 0)\<rparr>) = 6 / 100 \<and>
      mocap_delta_z (data e') = 588 / 10000)"
proof -
  let ?s0 = "(example_data 0)\<lparr>mocap_pos := (0, 6 / 10, 0)\<rparr>"
  let ?e0 = "(example_env 0)\<lparr>data := ?s0\<rparr>"
  have ec: "easy_config\<lparr>pos_action_scale := 2 / 100\<rparr> = easy_config"
    by (simp add: easy_config_def base_config_def)
  obtain ob dinfo e' where
    run: "step easy_config example_scene [0, 0] ?e0 = Inr (e', ob, 0, False, dinfo)"
    using example_step_mocap [of "2 / 100" 0] unfolding ec by blast
  have sim: "\<forall>u n t. mocap_pos (simulate example_scene u n t) = mocap_pos t"
    by (simp add: example_scene_def)
  have lo: "mocap_low easy_config = [- 1 / 10, 5 / 10, 0]"
    and hi: "mocap_high easy_config = [1 / 10, 7 / 10, 5 / 10]"
    and sc: "pos_action_scale easy_config = 2 / 100"
    by (simp_all add: easy_config_def base_config_def)
  have dz0: "mocap_delta_z ?s0 = 6 / 100" by (simp add: mocap_delta_z_def)
  have dz: "mocap_delta_z (data ?e0) = 6 / 100" by (simp add: mocap_delta_z_def)
  have z0: "snd (snd (mocap_pos (data ?e0))) = 0" by simp
  have pre: "step easy_config example_scene [0, 0] ?e0 = Inr (e', ob, 0, False, dinfo) \<and>
      (\<forall>u n t. mocap_pos (simulate example_scene u n t) = mocap_pos t) \<and>
      mocap_low easy_config = [- 1 / 10, 5 / 10, 0] \<and>
      mocap_high easy_config = [1 / 10, 7 / 10, 5 / 10] \<and>
      0 \<le> snd (snd (mocap_pos (data ?e0))) + pos_action_scale easy_config * mocap_delta_z (data ?e0) \<and>
      snd (snd (mocap_pos (data ?e0))) + pos_action_scale easy_config * mocap_delta_z (data ?e0)
        \<le> 5 / 10 \<and>
      0 < pos_action_scale easy_config \<and> pos_action_scale easy_config < 2 \<and>
      mocap_delta_z (data ?e0) \<noteq> 0"
    using run sim lo hi dz0 by (simp add: sc z0)
  note t = vertical_correction_shrinks [of "[1 / 2, - 3]" "example_data 0" easy_config
      example_scene ?e0 e' ob 0 False dinfo "- 1 / 10" "5 / 10" 0 "1 / 10" "7 / 10" "5 / 10"]
  from mp [OF conjunct2 [OF t] pre]
  have "mocap_delta_z (data e') = (1 - pos_action_scale easy_config) * mocap_delta_z (data ?e0)"
    by blast
  then have d': "mocap_delta_z (data e') = 588 / 10000" using dz0 by (simp add: sc)
  from mp [OF conjunct1 [OF t]]
  have "new_mocap_action [1 / 2, - 3] (example_data 0) =
      [clip ([1 / 2, - 3] ! 0) (- 1) 1, clip ([1 / 2, - 3] ! 1) (- 1) 1,
       6 / 100 - snd (snd (mocap_pos (example_data 0)))]"
    by simp
  then have n: "new_mocap_action [1 / 2, - 3] (example_data 0) = [1 / 2, - 1, 0]"
    by (simp add: clip_def example_data_def)
  from n run d' dz0 show ?thesis by blast
qed

subsection \<open>C9: with randomization off, reset always yields the fixed goal\<close>

text \<open>
  C9. When \<open>randomize_goals\<close> is false, every call of \<open>reset\<close> that returns yields the
  same goal: its observation's \<open>desired_goal\<close> and \<open>state_desired_goal\<close> entries, and the
  goal stored in the environment, are the fixed hand goal followed by the fixed puck
  goal, so two resets from any two states, generator states and engines agree on them.
  (On the base class \<open>reset\<close> raises, since \<open>sample_puck_xytheta\<close> is missing there; on
  the easy class it returns, as the witness shows.)
\<close>

theorem reset_fixed_goal:
  assumes "\<not> randomize_goals cfg"
    and "reset cfg mj e r = Inr (e', r', ob)"
    and "reset cfg mj2 e2 r2 = Inr (e2', r2', ob2)"
  shows "ob ''desired_goal'' = Some (fixed_hand_goal cfg @ fixed_puck_goal cfg) \<and>
         ob ''state_desired_goal'' = Some (fixed_hand_goal cfg @ fixed_puck_goal cfg) \<and>
         goal_xyxytheta e' = fixed_hand_goal cfg @ fixed_puck_goal cfg \<and>
         ob2 ''desired_goal'' = ob ''desired_goal'' \<and>
         ob2 ''state_desired_goal'' = ob ''state_desired_goal'' \<and>
         goal_xyxytheta e2' = goal_xyxytheta e'"
proof -
  have fixed: "sample_goal_xyxytheta cfg q = Inr (fixed_hand_goal cfg @ fixed_puck_goal cfg, q)"
    for q
    using assms(1) by (simp add: sample_goal_xyxytheta_def)
  from reset_result [OF assms(2)] fixed [of r]
  have a: "ob ''desired_goal'' = Some (fixed_hand_goal cfg @ fixed_puck_goal cfg)"
    "ob ''state_desired_goal'' = Some (fixed_hand_goal cfg @ fixed_puck_goal cfg)"
    "goal_xyxytheta e' = fixed_hand_goal cfg @ fixed_puck_goal cfg"
    by auto
  from reset_result [OF assms(3)] fixed [of r2]
  have b: "ob2 ''desired_goal'' = Some (fixed_hand_goal cfg @ fixed_puck_goal cfg)"
    "ob2 ''state_desired_goal'' = Some (fixed_hand_goal cfg @ fixed_puck_goal cfg)"
    "goal_xyxytheta e2' = fixed_hand_goal cfg @ fixed_puck_goal cfg"
    by auto
  from a b show ?thesis by simp
qed

theorem reset_fixed_goal_witness:
  "\<exists>e' r' ob e2' r2' ob2.
     reset (easy_config\<lparr>randomize_goals := False\<rparr>) example_scene (example_env 0) (\<lambda>i. 0)
       = Inr (e', r', ob) \<and>
     reset (easy_config\<lparr>randomize_goals := False\<rparr>) example_scene (example_env 1) (\<lambda>i. 1 / 2)
       = Inr (e2', r2', ob2) \<and>
     ob ''desired_goal'' = Some [- 5 / 100, 6 / 10, 0, 5 / 100, 6 / 10, 0] \<and>
     ob2 ''desired_goal'' = Some [- 5 / 100, 6 / 10, 0, 5 / 100, 6 / 10, 0] \<and>
     ob2 ''state_desired_goal'' = ob ''state_desired_goal''"
proof -
  let ?cfg = "easy_config\<lparr>randomize_goals := False\<rparr>"
  let ?g = "[- 5 / 100, 6 / 10, 0, 5 / 100, 6 / 10, 0 :: real]"
  have nr: "\<not> randomize_goals ?cfg" by simp
  have c: "cls ?cfg = SawyerPushAndReachTXYEasyEnv"
    by (simp add: easy_config_def)
  have sg: "sample_goal_xyxytheta ?cfg q = Inr (?g, q)" for q
    by (simp add: sample_goal_xyxytheta_def easy_config_def base_config_def)
  have lg: "4 \<le> length ?g" by simp
  have lv: "24 \<le> length (qvel (data (example_env d)))" for d
    by (simp add: example_env_def example_data_def)
  have k: "\<forall>s. case snd (kinematics example_scene s) 2 of
             (w, x, y, z) \<Rightarrow> x * x + y * y + z * z + w * w \<noteq> 0"
    by (simp add: example_scene_def)
  obtain e' r' ob where r1: "reset ?cfg example_scene (example_env 0) (\<lambda>i. 0) = Inr (e', r', ob)"
    using reset_runs [OF c sg lg lv example_ids(1) example_ids(2) k] by blast
  obtain e2' r2' ob2 where
    r2: "reset ?cfg example_scene (example_env 1) (\<lambda>i. 1 / 2) = Inr (e2', r2', ob2)"
    using reset_runs [OF c sg lg lv example_ids(1) example_ids(2) k] by blast
  have fx: "fixed_hand_goal ?cfg @ fixed_puck_goal ?cfg = ?g"
    by (simp add: easy_config_def base_config_def)
  note t = reset_fixed_goal [OF nr r1 r2]
  have "ob ''desired_goal'' = Some ?g" using t fx by simp
  moreover have "ob2 ''desired_goal'' = Some ?g" using t fx by simp
  moreover have "ob2 ''state_desired_goal'' = ob ''state_desired_goal''" using t by simp
  ultimately show ?thesis using r1 r2 by blast
qed

subsection \<open>C10: the touch distance mixes height and angle\<close>

text \<open>
  C10. For every call of \<open>step\<close> that returns, \<open>touch_distance\<close> is the Euclidean norm of
  \<open>(endeff_x - puck_x, endeff_y - puck_y, endeff_z - puck_theta)\<close>, where the first
  vector is the world position of the end effector and \<open>puck_theta\<close> is the rotation
  angle read from the puck's quaternion: the third component subtracts the puck's angle
  from the end effector's height, so the value is not a planar distance. On the example
  scene the end effector stands over the puck (planar distance 0) at height 0.06 and the
  touch distance is 0.06.
\<close>

theorem step_touch_distance:
  assumes "step cfg mj a e = Inr (e', ob, rew, d, dinfo)"
  shows "\<exists>i j ex ey ez px py pz w x y z ptheta.
           endeff_id mj = Inr j \<and> body_xpos (data e') j = (ex, ey, ez) \<and>
           puck_id mj = Inr i \<and> body_xpos (data e') i = (px, py, pz) \<and>
           body_xquat (data e') i = (w, x, y, z) \<and> quat_to_theta x y z w = Inr ptheta \<and>
           get_endeff_pos mj (data e') = Inr (ex, ey, ez) \<and>
           get_puck_xytheta mj (data e') = Inr (px, py, ptheta) \<and>
           touch_distance dinfo = sqrt ((ex - px)\<^sup>2 + (ey - py)\<^sup>2 + (ez - ptheta)\<^sup>2)"
proof -
  from step_parts [OF assms] have "diagnostics mj (data e') = Inr dinfo" by blast
  from diagnostics_result [OF this] obtain ee p where
    ge: "get_endeff_pos mj (data e') = Inr ee" and gp: "get_puck_xytheta mj (data e') = Inr p"
    and td: "touch_distance dinfo = norm3 (sub3 ee p)"
    by blast
  from ge obtain j where j: "endeff_id mj = Inr j" and ee: "ee = body_xpos (data e') j"
    by (auto simp: get_endeff_pos_def then_do_eq_Inr)
  obtain ex ey ez where e3: "body_xpos (data e') j = (ex, ey, ez)"
    by (cases "body_xpos (data e') j")
  from gp obtain i where i: "puck_id mj = Inr i"
    and rest: "(case body_xpos (data e') i of (px, py, pz) \<Rightarrow>
                 case body_xquat (data e') i of (w, x, y, z) \<Rightarrow>
                   then_do (quat_to_theta x y z w) (\<lambda>theta. Inr (px, py, theta))) = Inr p"
    by (auto simp: get_puck_xytheta_def then_do_eq_Inr)
  obtain px py pz where p3: "body_xpos (data e') i = (px, py, pz)"
    by (cases "body_xpos (data e') i")
  obtain w x y z where q4: "body_xquat (data e') i = (w, x, y, z)"
    by (cases "body_xquat (data e') i")
  from rest obtain ptheta where th: "quat_to_theta x y z w = Inr ptheta"
    and p: "p = (px, py, ptheta)"
    by (auto simp: p3 q4 then_do_eq_Inr)
  have td': "touch_distance dinfo = sqrt ((ex - px)\<^sup>2 + (ey - py)\<^sup>2 + (ez - ptheta)\<^sup>2)"
    by (simp add: td ee e3 p sub3_def norm3_eq)
  have ge': "get_endeff_pos mj (data e') = Inr (ex, ey, ez)" using ge ee e3 by simp
  have gp': "get_puck_xytheta mj (data e') = Inr (px, py, ptheta)" using gp p by simp
  from j e3 i p3 q4 th ge' gp' td' show ?thesis by blast
qed

theorem step_touch_distance_witness:
  "\<exists>e' ob rew dinfo.
      step easy_config example_scene [0, 0] (example_env 0) = Inr (e', ob, rew, False, dinfo) \<and>
      get_endeff_pos example_scene (data e') = Inr (0, 6 / 10, 6 / 100) \<and>
      get_puck_xytheta example_scene (data e') = Inr (0, 6 / 10, 0) \<and>
      touch_distance dinfo = 6 / 100"
proof -
  let ?i = "\<lparr>hand_distance = 0, puck_distance = 0, puck_xy_distance = 0,
             puck_theta_distance = 0, touch_distance = 6 / 100, success = 1\<rparr>"
  obtain ob where run: "step easy_config example_scene [0, 0] (example_env 0) =
      Inr (example_env 0, ob, 0, False, ?i)"
    using example_step [of 0] by auto
  obtain ex ey ez px py ptheta where
    ge: "get_endeff_pos example_scene (data (example_env 0)) = Inr (ex, ey, ez)"
    and gp: "get_puck_xytheta example_scene (data (example_env 0)) = Inr (px, py, ptheta)"
    and td: "touch_distance ?i = sqrt ((ex - px)\<^sup>2 + (ey - py)\<^sup>2 + (ez - ptheta)\<^sup>2)"
    using step_touch_distance [OF run] by blast
  have dt: "data (example_env 0) = example_data 0" by (simp add: example_env_def)
  from ge have "ex = 0 \<and> ey = 6 / 10 \<and> ez = 6 / 100" by (simp add: dt example_accessors)
  moreover from gp have "px = 0 \<and> py = 6 / 10 \<and> ptheta = 0" by (simp add: dt example_accessors)
  ultimately show ?thesis using run ge gp td by auto
qed

end
